theory Spec2Isabelle
  imports Main "HOL-Library.Word" "HOL-Library.DAList"
begin

section \<open>Errors and panics\<close>

text \<open>
  A Go \<open>error\<close> value that is not nil. \<open>errors.New(msg)\<close> builds an error that only
  carries its message; \<open>fmt.Errorf\<close> with a \<open>%w\<close> operand builds an error that carries the
  formatted message and the wrapped cause. A nil \<open>error\<close> is \<open>None\<close> of \<open>error option\<close>.
\<close>

datatype error = errors_New string | wrapError string error

fun error_Error :: "error \<Rightarrow> string" where
  "error_Error (errors_New msg) = msg"
| "error_Error (wrapError msg cause) = msg"

fun Unwrap :: "error \<Rightarrow> error option" where
  "Unwrap (errors_New msg) = None"
| "Unwrap (wrapError msg cause) = Some cause"

text \<open>
  \<open>fmt.Errorf(pre + "%q" + mid + "%w", name, e)\<close>. The verb \<open>%q\<close> prints the name through
  \<open>strconv.Quote\<close>, which belongs to the Go library and is the parameter \<open>q\<close> here. A nil
  operand of \<open>%w\<close> is printed as \<open>%!w(<nil>)\<close> and nothing is wrapped.
\<close>

definition Errorf_qw :: "(string \<Rightarrow> string) \<Rightarrow> string \<Rightarrow> string \<Rightarrow> string \<Rightarrow> error option \<Rightarrow> error" where
  "Errorf_qw q pre name mid e =
     (case e of
        Some cause \<Rightarrow> wrapError (pre @ q name @ mid @ error_Error cause) cause
      | None \<Rightarrow> errors_New (pre @ q name @ mid @ ''%!w(<nil>)''))"

text \<open>The runtime panic of Go on a method call or field access through nil.\<close>

datatype panic = NilPointerDereference

section \<open>Status and PluginToStatus (package framework)\<close>

text \<open>\<open>type Code int\<close> with the constants of the \<open>iota\<close> block.\<close>

type_synonym Code = int

abbreviation Success :: Code where "Success \<equiv> 0"
abbreviation Error :: Code where "Error \<equiv> 1"
abbreviation Unschedulable :: Code where "Unschedulable \<equiv> 2"
abbreviation Wait :: Code where "Wait \<equiv> 3"
abbreviation Skip :: Code where "Skip \<equiv> 4"

text \<open>
  The map \<open>statusPrecedence\<close> has entries for Error, Unschedulable and Success only; a
  lookup of any other code yields the zero value.
\<close>

definition statusPrecedence :: "Code \<Rightarrow> int" where
  "statusPrecedence c =
     (if c = Error then 2 else if c = Unschedulable then 1 else if c = Success then - 1 else 0)"

record Status =
  code :: Code
  reasons :: "string list"
  err :: "error option"
  pluginName :: string

text \<open>\<open>strings.Join\<close>.\<close>

fun strings_Join :: "string list \<Rightarrow> string \<Rightarrow> string" where
  "strings_Join [] sep = []"
| "strings_Join [x] sep = x"
| "strings_Join (x # y # ys) sep = x @ sep @ strings_Join (y # ys) sep"

text \<open>
  A \<open>*Status\<close> is a \<open>Status option\<close>, nil being \<open>None\<close>. The methods \<open>Code\<close>, \<open>Message\<close>,
  \<open>IsSuccess\<close>, \<open>IsUnschedulable\<close> and \<open>AsError\<close> accept a nil receiver; \<open>SetPluginName\<close>,
  \<open>WithPluginName\<close>, \<open>PluginName\<close>, \<open>Reasons\<close> and \<open>AppendReason\<close> read or write a field at
  once, so they are defined on a receiver that is not nil.
\<close>

definition Code :: "Status option \<Rightarrow> Code" where
  "Code s = (case s of None \<Rightarrow> Success | Some st \<Rightarrow> code st)"

definition Message :: "Status option \<Rightarrow> string" where
  "Message s = (case s of None \<Rightarrow> [] | Some st \<Rightarrow> strings_Join (reasons st) '', '')"

definition SetPluginName :: "Status \<Rightarrow> string \<Rightarrow> Status" where
  "SetPluginName s plugin = s\<lparr>pluginName := plugin\<rparr>"

definition WithPluginName :: "Status \<Rightarrow> string \<Rightarrow> Status" where
  "WithPluginName s plugin = SetPluginName s plugin"

definition PluginName :: "Status \<Rightarrow> string" where
  "PluginName s = pluginName s"

definition Reasons :: "Status \<Rightarrow> string list" where
  "Reasons s = reasons s"

definition AppendReason :: "Status \<Rightarrow> string \<Rightarrow> Status" where
  "AppendReason s reason = s\<lparr>reasons := reasons s @ [reason]\<rparr>"

definition IsSuccess :: "Status option \<Rightarrow> bool" where
  "IsSuccess s = (Code s = Success)"

definition IsUnschedulable :: "Status option \<Rightarrow> bool" where
  "IsUnschedulable s = (Code s = Unschedulable)"

text \<open>
  \<open>AsError\<close> returns at its first line for a nil receiver, since \<open>IsSuccess\<close> holds of it; the
  field \<open>err\<close> is read only behind that guard.
\<close>

definition AsError :: "Status option \<Rightarrow> error option" where
  "AsError s =
     (if IsSuccess s then None
      else (case s of
              None \<Rightarrow> None
            | Some st \<Rightarrow>
                (case err st of
                   Some e \<Rightarrow> Some e
                 | None \<Rightarrow> Some (errors_New (Message s)))))"

definition NewStatus :: "Code \<Rightarrow> string list \<Rightarrow> Status" where
  "NewStatus c rs =
     (let s = \<lparr>code = c, reasons = rs, err = None, pluginName = []\<rparr>
      in if c = Error then s\<lparr>err := Some (errors_New (Message (Some s)))\<rparr> else s)"

definition AsStatus :: "error \<Rightarrow> Status" where
  "AsStatus e = \<lparr>code = Error, reasons = [error_Error e], err = Some e, pluginName = []\<rparr>"

subsection \<open>PluginToStatus.Merge\<close>

text \<open>
  \<open>PluginToStatus\<close> is \<open>map[string]*Status\<close>. \<open>Merge\<close> ranges over the map, and Go leaves the
  order of that iteration open: the argument of the model is the list of the map's entries
  in the order in which the loop meets them. An entry whose status is nil passes both
  conditionals untouched (its code is Success, whose precedence exceeds no other) and then
  panics at \<open>s.reasons\<close>.
\<close>

fun Merge_loop :: "(string \<times> Status option) list \<Rightarrow> Status \<Rightarrow> panic + Status" where
  "Merge_loop [] finalStatus = Inr finalStatus"
| "Merge_loop ((name, s) # p) finalStatus =
     (let f1 = (if Code s = Error then finalStatus\<lparr>err := AsError s\<rparr> else finalStatus)
      in case s of
           None \<Rightarrow> Inl NilPointerDereference
         | Some st \<Rightarrow>
             (let f2 = (if statusPrecedence (Code s) > statusPrecedence (code f1)
                        then f1\<lparr>code := Code s, pluginName := PluginName st\<rparr>
                        else f1)
              in Merge_loop p (fold (\<lambda>r f. AppendReason f r) (reasons st) f2)))"

definition Merge :: "(string \<times> Status option) list \<Rightarrow> panic + Status option" where
  "Merge p =
     (if length p = 0 then Inr None
      else (case Merge_loop p (NewStatus Success []) of
              Inl e \<Rightarrow> Inl e
            | Inr finalStatus \<Rightarrow> Inr (Some finalStatus)))"

text \<open>
  One round of the loop of \<open>Merge\<close> for an entry whose status \<open>st\<close> is not nil, as a
  function of the accumulator; the proofs below use it to unroll \<open>Merge_loop\<close>.
\<close>

definition merge_step :: "Status \<Rightarrow> Status \<Rightarrow> Status" where
  "merge_step f st =
     (let f1 = (if code st = Error then f\<lparr>err := AsError (Some st)\<rparr> else f);
          f2 = (if statusPrecedence (code st) > statusPrecedence (code f1)
                then f1\<lparr>code := code st, pluginName := pluginName st\<rparr> else f1)
      in f2\<lparr>reasons := reasons f2 @ reasons st\<rparr>)"

text \<open>
  The invariant that the comment on \<open>Status\<close> asks of a status: a Success carries neither
  reasons nor an error, any other code carries a reason.
\<close>

definition status_invariant :: "Status \<Rightarrow> bool" where
  "status_invariant s =
     ((code s = Success \<longrightarrow> reasons s = [] \<and> err s = None) \<and>
      (code s \<noteq> Success \<longrightarrow> reasons s \<noteq> []))"

section \<open>CycleState (package framework)\<close>

text \<open>
  A \<open>StateData\<close> is an interface value: \<open>None\<close> is the nil interface, \<open>Some d\<close> an
  implementation \<open>d\<close>, whose method \<open>Clone\<close> is the parameter \<open>cl\<close> of the model and may
  itself return nil. A \<open>CycleState\<close> holds its \<open>storage\<close> map; the map has one entry per
  key, and \<open>Clone\<close> ranges over it in an order that Go leaves open, so the map is an
  association list with distinct keys. The objects are those built by \<open>NewCycleState\<close>,
  the only constructor of the package. The mutex is not modelled. A \<open>*CycleState\<close> is an
  address of the store or nil; the store is the list of the objects allocated so far.
\<close>

type_synonym StateKey = string

record 'd CycleState =
  storage :: "(StateKey, 'd option) alist"

type_synonym 'd store = "'d CycleState list"

definition ErrNotFound :: error where
  "ErrNotFound = errors_New ''not found''"

definition NewCycleState :: "'d store \<Rightarrow> nat \<times> 'd store" where
  "NewCycleState h = (length h, h @ [\<lparr>storage = DAList.empty\<rparr>])"

definition Read :: "nat option \<Rightarrow> StateKey \<Rightarrow> 'd store \<Rightarrow> panic + ('d option \<times> error option)" where
  "Read c key h =
     (case c of
        None \<Rightarrow> Inl NilPointerDereference
      | Some a \<Rightarrow>
          if a < length h then
            (case DAList.lookup (storage (h ! a)) key of
               Some v \<Rightarrow> Inr (v, None)
             | None \<Rightarrow> Inr (None, Some ErrNotFound))
          else Inl NilPointerDereference)"

definition Write :: "nat option \<Rightarrow> StateKey \<Rightarrow> 'd option \<Rightarrow> 'd store \<Rightarrow> panic + 'd store" where
  "Write c key val h =
     (case c of
        None \<Rightarrow> Inl NilPointerDereference
      | Some a \<Rightarrow>
          if a < length h then Inr (h[a := (h ! a)\<lparr>storage := DAList.update key val (storage (h ! a))\<rparr>])
          else Inl NilPointerDereference)"

definition Delete :: "nat option \<Rightarrow> StateKey \<Rightarrow> 'd store \<Rightarrow> panic + 'd store" where
  "Delete c key h =
     (case c of
        None \<Rightarrow> Inl NilPointerDereference
      | Some a \<Rightarrow>
          if a < length h then Inr (h[a := (h ! a)\<lparr>storage := DAList.delete key (storage (h ! a))\<rparr>])
          else Inl NilPointerDereference)"

text \<open>The loop of \<open>Clone\<close>: \<open>copy.Write(k, v.Clone())\<close> for each entry; a nil \<open>v\<close> panics.\<close>

fun Clone_loop :: "('d \<Rightarrow> 'd option) \<Rightarrow> (StateKey \<times> 'd option) list \<Rightarrow> nat option \<Rightarrow> 'd store
    \<Rightarrow> panic + 'd store" where
  "Clone_loop cl [] copy h = Inr h"
| "Clone_loop cl ((k, v) # kvs) copy h =
     (case v of
        None \<Rightarrow> Inl NilPointerDereference
      | Some d \<Rightarrow>
          (case Write copy k (cl d) h of
             Inl e \<Rightarrow> Inl e
           | Inr h1 \<Rightarrow> Clone_loop cl kvs copy h1))"

definition Clone :: "('d \<Rightarrow> 'd option) \<Rightarrow> nat option \<Rightarrow> 'd store \<Rightarrow> panic + (nat option \<times> 'd store)" where
  "Clone cl c h =
     (case c of
        None \<Rightarrow> Inr (None, h)
      | Some a \<Rightarrow>
          if a < length h then
            (case NewCycleState h of
               (copy, h1) \<Rightarrow>
                 (case Clone_loop cl (DAList.impl_of (storage (h ! a))) (Some copy) h1 of
                    Inl e \<Rightarrow> Inl e
                  | Inr h2 \<Rightarrow> Inr (Some copy, h2)))
          else Inl NilPointerDereference)"

section \<open>Plugins (package framework) and the driver (package runtime)\<close>

text \<open>
  The execution context, the volume, the pools and the object references are objects of
  other packages, which the driver only hands on to the plugins. Each is told apart here
  by an identity (a number for a context, a name for the others) and nothing else of it
  is modelled; a pointer or interface value of such a type is an \<open>option\<close>, nil being
  \<open>None\<close>.
\<close>

datatype Context = Context nat
datatype StorageVolume = StorageVolume string
datatype StoragePool = StoragePool string
datatype ObjectReference = ObjectReference string

record PoolInfo =
  Pool :: "StoragePool option"

record PoolScore =
  Name :: string
  Score :: "64 word"

type_synonym PoolScoreList = "PoolScore list"
type_synonym PluginToPoolScores = "string \<rightharpoonup> PoolScoreList"
type_synonym PluginToStatus = "string \<rightharpoonup> Status option"

text \<open>
  A plugin is the record of its methods. Whatever a plugin call reads and changes (the
  cycle state behind the pointer it is given, the plugin's own fields, the cluster) is
  the world \<open>'w\<close>: a method takes the world and returns its result with the new world, and
  the driver threads the world through the calls in the order in which it makes them. A
  status that a plugin returns is a value here; that the plugin may keep the pointer it
  returned is not modelled.
\<close>

record 'w PreFilterPlugin =
  PreFilterPlugin_Name :: string
  PreFilter :: "Context option \<Rightarrow> nat option \<Rightarrow> StorageVolume option \<Rightarrow> 'w \<Rightarrow> Status option \<times> 'w"

record 'w FilterPlugin =
  FilterPlugin_Name :: string
  Filter :: "Context option \<Rightarrow> nat option \<Rightarrow> StorageVolume option \<Rightarrow> PoolInfo option \<Rightarrow> 'w
    \<Rightarrow> Status option \<times> 'w"

record 'w ScorePlugin =
  ScorePlugin_Name :: string
  ScorePlugin_Score :: "Context option \<Rightarrow> nat option \<Rightarrow> StorageVolume option \<Rightarrow> ObjectReference option
    \<Rightarrow> ObjectReference option \<Rightarrow> 'w \<Rightarrow> (64 word \<times> Status option) \<times> 'w"

record 'w ReservePlugin =
  ReservePlugin_Name :: string
  Reserve :: "Context option \<Rightarrow> nat option \<Rightarrow> StorageVolume option \<Rightarrow> ObjectReference option
    \<Rightarrow> ObjectReference option \<Rightarrow> 'w \<Rightarrow> Status option \<times> 'w"
  Unreserve :: "Context option \<Rightarrow> nat option \<Rightarrow> StorageVolume option \<Rightarrow> ObjectReference option
    \<Rightarrow> ObjectReference option \<Rightarrow> 'w \<Rightarrow> 'w"

record 'w BindPlugin =
  BindPlugin_Name :: string
  Bind :: "Context option \<Rightarrow> nat option \<Rightarrow> StorageVolume option \<Rightarrow> ObjectReference option
    \<Rightarrow> ObjectReference option \<Rightarrow> 'w \<Rightarrow> Status option \<times> 'w"

text \<open>The plugin lists of \<open>Framework\<close> that the operations below range over.\<close>

record 'w Framework =
  preFilterPlugins :: "'w PreFilterPlugin list"
  filterPlugins :: "'w FilterPlugin list"
  scorePlugins :: "'w ScorePlugin list"
  reservePlugins :: "'w ReservePlugin list"
  bindPlugins :: "'w BindPlugin list"

subsection \<open>RunPreFilterPlugins\<close>

definition runPreFilterPlugin :: "'w PreFilterPlugin \<Rightarrow> Context option \<Rightarrow> nat option
    \<Rightarrow> StorageVolume option \<Rightarrow> 'w \<Rightarrow> Status option \<times> 'w" where
  "runPreFilterPlugin pl ctx state volume w = PreFilter pl ctx state volume w"

text \<open>
  The body of the range loop. A nil status is a success (\<open>IsSuccess\<close> holds of it), so the
  loop goes on to the next plugin; only a status that is not nil reaches \<open>SetPluginName\<close>.
\<close>

fun RunPreFilterPlugins_loop :: "(string \<Rightarrow> string) \<Rightarrow> 'w PreFilterPlugin list \<Rightarrow> Context option
    \<Rightarrow> nat option \<Rightarrow> StorageVolume option \<Rightarrow> 'w \<Rightarrow> Status option \<times> 'w" where
  "RunPreFilterPlugins_loop q [] ctx state volume w = (None, w)"
| "RunPreFilterPlugins_loop q (pl # pls) ctx state volume w =
     (case runPreFilterPlugin pl ctx state volume w of
        (status, w1) \<Rightarrow>
          (case status of
             None \<Rightarrow> RunPreFilterPlugins_loop q pls ctx state volume w1
           | Some st \<Rightarrow>
               if \<not> IsSuccess (Some st) then
                 (let st1 = SetPluginName st (PreFilterPlugin_Name pl)
                  in if IsUnschedulable (Some st1) then (Some st1, w1)
                     else (Some (WithPluginName
                             (AsStatus (Errorf_qw q ''running PreFilter plugin ''
                                (PreFilterPlugin_Name pl) '': '' (AsError (Some st1))))
                             (PreFilterPlugin_Name pl)), w1))
               else RunPreFilterPlugins_loop q pls ctx state volume w1))"

definition RunPreFilterPlugins :: "(string \<Rightarrow> string) \<Rightarrow> 'w Framework \<Rightarrow> Context option
    \<Rightarrow> nat option \<Rightarrow> StorageVolume option \<Rightarrow> 'w \<Rightarrow> Status option \<times> 'w" where
  "RunPreFilterPlugins q f ctx state volume w =
     RunPreFilterPlugins_loop q (preFilterPlugins f) ctx state volume w"

subsection \<open>RunFilterPlugins\<close>

definition runFilterPlugin :: "'w FilterPlugin \<Rightarrow> Context option \<Rightarrow> nat option
    \<Rightarrow> StorageVolume option \<Rightarrow> PoolInfo option \<Rightarrow> 'w \<Rightarrow> Status option \<times> 'w" where
  "runFilterPlugin pl ctx state volume poolInfo w = Filter pl ctx state volume poolInfo w"

fun RunFilterPlugins_loop :: "(string \<Rightarrow> string) \<Rightarrow> 'w FilterPlugin list \<Rightarrow> Context option
    \<Rightarrow> nat option \<Rightarrow> StorageVolume option \<Rightarrow> PoolInfo option \<Rightarrow> PluginToStatus \<Rightarrow> 'w
    \<Rightarrow> PluginToStatus \<times> 'w" where
  "RunFilterPlugins_loop q [] ctx state volume poolInfo statuses w = (statuses, w)"
| "RunFilterPlugins_loop q (pl # pls) ctx state volume poolInfo statuses w =
     (case runFilterPlugin pl ctx state volume poolInfo w of
        (pluginStatus, w1) \<Rightarrow>
          (case pluginStatus of
             None \<Rightarrow> RunFilterPlugins_loop q pls ctx state volume poolInfo statuses w1
           | Some st \<Rightarrow>
               if \<not> IsSuccess (Some st) then
                 if \<not> IsUnschedulable (Some st) then
                   (let errStatus = WithPluginName
                          (AsStatus (Errorf_qw q ''running '' (FilterPlugin_Name pl)
                             '' filter plugin: '' (AsError (Some st))))
                          (FilterPlugin_Name pl)
                    in (Map.empty(FilterPlugin_Name pl \<mapsto> Some errStatus), w1))
                 else RunFilterPlugins_loop q pls ctx state volume poolInfo
                        (statuses(FilterPlugin_Name pl \<mapsto>
                           Some (SetPluginName st (FilterPlugin_Name pl)))) w1
               else RunFilterPlugins_loop q pls ctx state volume poolInfo statuses w1))"

definition RunFilterPlugins :: "(string \<Rightarrow> string) \<Rightarrow> 'w Framework \<Rightarrow> Context option
    \<Rightarrow> nat option \<Rightarrow> StorageVolume option \<Rightarrow> PoolInfo option \<Rightarrow> 'w \<Rightarrow> PluginToStatus \<times> 'w" where
  "RunFilterPlugins q f ctx state volume poolInfo w =
     RunFilterPlugins_loop q (filterPlugins f) ctx state volume poolInfo Map.empty w"

subsection \<open>RunScorePlugins\<close>

text \<open>
  The body that called \<open>runScorePlugin\<close> is commented out in the source. What runs is the
  loop that gives every plugin name a list of \<open>len(pools)\<close> zero-valued scores, and the
  return of that map with a nil status.
\<close>

definition RunScorePlugins :: "'w Framework \<Rightarrow> Context option \<Rightarrow> nat option \<Rightarrow> StorageVolume option
    \<Rightarrow> StoragePool option list \<Rightarrow> 'w \<Rightarrow> (PluginToPoolScores \<times> Status option) \<times> 'w" where
  "RunScorePlugins f ctx state volume pools w =
     (let pluginToPoolScores =
            fold (\<lambda>pl m. m(ScorePlugin_Name pl \<mapsto> replicate (length pools) \<lparr>Name = [], Score = 0\<rparr>))
              (scorePlugins f) Map.empty
      in ((pluginToPoolScores, None), w))"

definition runScorePlugin :: "'w ScorePlugin \<Rightarrow> Context option \<Rightarrow> nat option \<Rightarrow> StorageVolume option
    \<Rightarrow> ObjectReference option \<Rightarrow> ObjectReference option \<Rightarrow> 'w \<Rightarrow> (64 word \<times> Status option) \<times> 'w" where
  "runScorePlugin pl ctx state volume pool cohort w = ScorePlugin_Score pl ctx state volume pool cohort w"

subsection \<open>RunReservePluginsReserve and RunReservePluginsUnreserve\<close>

definition runReservePluginReserve :: "'w ReservePlugin \<Rightarrow> Context option \<Rightarrow> nat option
    \<Rightarrow> StorageVolume option \<Rightarrow> ObjectReference option \<Rightarrow> ObjectReference option \<Rightarrow> 'w
    \<Rightarrow> Status option \<times> 'w" where
  "runReservePluginReserve pl ctx state volume pool cohort w = Reserve pl ctx state volume pool cohort w"

text \<open>The call of \<open>klog.ErrorS\<close> only writes a log line and is left out.\<close>

fun RunReservePluginsReserve_loop :: "(string \<Rightarrow> string) \<Rightarrow> 'w ReservePlugin list \<Rightarrow> Context option
    \<Rightarrow> nat option \<Rightarrow> StorageVolume option \<Rightarrow> ObjectReference option \<Rightarrow> ObjectReference option \<Rightarrow> 'w
    \<Rightarrow> Status option \<times> 'w" where
  "RunReservePluginsReserve_loop q [] ctx state volume pool cohort w = (None, w)"
| "RunReservePluginsReserve_loop q (pl # pls) ctx state volume pool cohort w =
     (case runReservePluginReserve pl ctx state volume pool cohort w of
        (status, w1) \<Rightarrow>
          if \<not> IsSuccess status then
            (let e = AsError status
             in (Some (AsStatus (Errorf_qw q ''running Reserve plugin '' (ReservePlugin_Name pl)
                         '': '' e)), w1))
          else RunReservePluginsReserve_loop q pls ctx state volume pool cohort w1)"

definition RunReservePluginsReserve :: "(string \<Rightarrow> string) \<Rightarrow> 'w Framework \<Rightarrow> Context option
    \<Rightarrow> nat option \<Rightarrow> StorageVolume option \<Rightarrow> ObjectReference option \<Rightarrow> ObjectReference option \<Rightarrow> 'w
    \<Rightarrow> Status option \<times> 'w" where
  "RunReservePluginsReserve q f ctx state volume pool cohort w =
     RunReservePluginsReserve_loop q (reservePlugins f) ctx state volume pool cohort w"

definition runReservePluginUnreserve :: "'w ReservePlugin \<Rightarrow> Context option \<Rightarrow> nat option
    \<Rightarrow> StorageVolume option \<Rightarrow> ObjectReference option \<Rightarrow> ObjectReference option \<Rightarrow> 'w \<Rightarrow> 'w" where
  "runReservePluginUnreserve pl ctx state volume pool cohort w = Unreserve pl ctx state volume pool cohort w"

text \<open>
  \<open>for i := len(f.reservePlugins) - 1; i >= 0; i--\<close>: the argument \<open>n\<close> is \<open>i + 1\<close>, so the
  loop ends at \<open>n = 0\<close> and its body reads \<open>f.reservePlugins[i]\<close> for \<open>i = n - 1\<close>, which is
  within the list when the loop starts at its length.
\<close>

fun RunReservePluginsUnreserve_loop :: "'w ReservePlugin list \<Rightarrow> nat \<Rightarrow> Context option
    \<Rightarrow> nat option \<Rightarrow> StorageVolume option \<Rightarrow> ObjectReference option \<Rightarrow> ObjectReference option \<Rightarrow> 'w
    \<Rightarrow> 'w" where
  "RunReservePluginsUnreserve_loop pls 0 ctx state volume pool cohort w = w"
| "RunReservePluginsUnreserve_loop pls (Suc i) ctx state volume pool cohort w =
     RunReservePluginsUnreserve_loop pls i ctx state volume pool cohort
       (runReservePluginUnreserve (pls ! i) ctx state volume pool cohort w)"

definition RunReservePluginsUnreserve :: "'w Framework \<Rightarrow> Context option \<Rightarrow> nat option
    \<Rightarrow> StorageVolume option \<Rightarrow> ObjectReference option \<Rightarrow> ObjectReference option \<Rightarrow> 'w \<Rightarrow> 'w" where
  "RunReservePluginsUnreserve f ctx state volume pool cohort w =
     RunReservePluginsUnreserve_loop (reservePlugins f) (length (reservePlugins f))
       ctx state volume pool cohort w"

subsection \<open>RunBindPlugins\<close>

definition runBindPlugin :: "'w BindPlugin \<Rightarrow> Context option \<Rightarrow> nat option
    \<Rightarrow> StorageVolume option \<Rightarrow> ObjectReference option \<Rightarrow> ObjectReference option \<Rightarrow> 'w
    \<Rightarrow> Status option \<times> 'w" where
  "runBindPlugin bp ctx state volume pool cohort w = Bind bp ctx state volume pool cohort w"

text \<open>
  The named result \<open>status\<close> is the argument \<open>status\<close> of the loop: it holds the status of
  the plugin called last, and is what the function returns when the loop runs out.
\<close>

fun RunBindPlugins_loop :: "(string \<Rightarrow> string) \<Rightarrow> 'w BindPlugin list \<Rightarrow> Context option
    \<Rightarrow> nat option \<Rightarrow> StorageVolume option \<Rightarrow> ObjectReference option \<Rightarrow> ObjectReference option
    \<Rightarrow> Status option \<Rightarrow> 'w \<Rightarrow> Status option \<times> 'w" where
  "RunBindPlugins_loop q [] ctx state volume pool cohort status w = (status, w)"
| "RunBindPlugins_loop q (bp # bps) ctx state volume pool cohort status w =
     (case runBindPlugin bp ctx state volume pool cohort w of
        (status1, w1) \<Rightarrow>
          if status1 \<noteq> None \<and> Code status1 = Skip then
            RunBindPlugins_loop q bps ctx state volume pool cohort status1 w1
          else if \<not> IsSuccess status1 then
            (let e = AsError status1
             in (Some (AsStatus (Errorf_qw q ''running Bind plugin '' (BindPlugin_Name bp)
                         '': '' e)), w1))
          else (status1, w1))"

definition RunBindPlugins :: "(string \<Rightarrow> string) \<Rightarrow> 'w Framework \<Rightarrow> Context option
    \<Rightarrow> nat option \<Rightarrow> StorageVolume option \<Rightarrow> ObjectReference option \<Rightarrow> ObjectReference option \<Rightarrow> 'w
    \<Rightarrow> Status option \<times> 'w" where
  "RunBindPlugins q f ctx state volume pool cohort w =
     (if length (bindPlugins f) = 0 then (Some (NewStatus Skip [[]]), w)
      else RunBindPlugins_loop q (bindPlugins f) ctx state volume pool cohort None w)"

subsection \<open>Calls in sequence\<close>

text \<open>
  \<open>run_all cs w\<close> makes the calls \<open>cs\<close> one after the other, each on the world that the
  call before it left, and returns their results with the last world. It is the yardstick
  for "every plugin of the list ran once, in the order of the list".
\<close>

fun run_all :: "('w \<Rightarrow> 'r \<times> 'w) list \<Rightarrow> 'w \<Rightarrow> 'r list \<times> 'w" where
  "run_all [] w = ([], w)"
| "run_all (c # cs) w =
     (case c w of (r, w1) \<Rightarrow> (case run_all cs w1 of (rs, w2) \<Rightarrow> (r # rs, w2)))"

section \<open>Example inputs\<close>

text \<open>Statuses as plugins named A, B and E build them, for the examples of \<open>Merge\<close>.\<close>

definition merge_example_A :: Status where
  "merge_example_A = SetPluginName (NewStatus Unschedulable [''pool is full'']) ''A''"

definition merge_example_B :: Status where
  "merge_example_B = SetPluginName (NewStatus Unschedulable [''zone mismatch'']) ''B''"

definition merge_example_E :: Status where
  "merge_example_E = SetPluginName (NewStatus Error [''boom'']) ''E''"

text \<open>
  \<open>strconv.Quote\<close> on a name of printable ASCII characters without quote or backslash puts
  the name between double quotes.
\<close>

definition example_quote :: "string \<Rightarrow> string" where
  "example_quote n = [CHR 0x22] @ n @ [CHR 0x22]"

text \<open>
  In the examples of the driver the world is the log of the plugin calls made so far: a
  plugin method appends its own name and the plugin's to the log.
\<close>

definition example_reserve_plugin :: "string \<Rightarrow> Status option \<Rightarrow> string list ReservePlugin" where
  "example_reserve_plugin n st =
     \<lparr>ReservePlugin_Name = n,
      Reserve = (\<lambda>ctx state volume pool cohort w. (st, w @ [''Reserve '' @ n])),
      Unreserve = (\<lambda>ctx state volume pool cohort w. w @ [''Unreserve '' @ n])\<rparr>"

text \<open>Reserve plugins A, B and C in this order; the Reserve of B fails.\<close>

definition example_reserve_framework :: "string list Framework" where
  "example_reserve_framework =
     \<lparr>preFilterPlugins = [], filterPlugins = [], scorePlugins = [],
      reservePlugins = [example_reserve_plugin ''A'' None,
                        example_reserve_plugin ''B'' (Some (NewStatus Error [''no space''])),
                        example_reserve_plugin ''C'' None],
      bindPlugins = []\<rparr>"

text \<open>A score plugin P whose \<open>Score\<close> returns 1000 with a nil status.\<close>

definition example_score_framework :: "string list Framework" where
  "example_score_framework =
     \<lparr>preFilterPlugins = [], filterPlugins = [],
      scorePlugins = [\<lparr>ScorePlugin_Name = ''P'',
                       ScorePlugin_Score = (\<lambda>ctx state volume pool cohort w. ((1000, None), w @ [''Score P'']))\<rparr>],
      reservePlugins = [], bindPlugins = []\<rparr>"

definition example_prefilter_plugin :: "string \<Rightarrow> Status option \<Rightarrow> string list PreFilterPlugin" where
  "example_prefilter_plugin n st =
     \<lparr>PreFilterPlugin_Name = n,
      PreFilter = (\<lambda>ctx state volume w. (st, w @ [''PreFilter '' @ n]))\<rparr>"

definition example_prefilter_framework :: "Status option \<Rightarrow> string list Framework" where
  "example_prefilter_framework st =
     \<lparr>preFilterPlugins = [example_prefilter_plugin ''A'' None,
                          example_prefilter_plugin ''B'' st,
                          example_prefilter_plugin ''C'' None],
      filterPlugins = [], scorePlugins = [], reservePlugins = [], bindPlugins = []\<rparr>"

definition example_filter_plugin :: "string \<Rightarrow> Status option \<Rightarrow> string list FilterPlugin" where
  "example_filter_plugin n st =
     \<lparr>FilterPlugin_Name = n,
      Filter = (\<lambda>ctx state volume poolInfo w. (st, w @ [''Filter '' @ n]))\<rparr>"

text \<open>Filter plugins A, B and C in this order; C returns a success.\<close>

definition example_filter_framework :: "Status option \<Rightarrow> Status option \<Rightarrow> string list Framework" where
  "example_filter_framework a b =
     \<lparr>preFilterPlugins = [],
      filterPlugins = [example_filter_plugin ''A'' a, example_filter_plugin ''B'' b,
                       example_filter_plugin ''C'' None],
      scorePlugins = [], reservePlugins = [], bindPlugins = []\<rparr>"

definition example_bind_plugin :: "string \<Rightarrow> Status option \<Rightarrow> string list BindPlugin" where
  "example_bind_plugin n st =
     \<lparr>BindPlugin_Name = n,
      Bind = (\<lambda>ctx state volume pool cohort w. (st, w @ [''Bind '' @ n]))\<rparr>"

text \<open>Bind plugins A and B in this order.\<close>

definition example_bind_framework :: "Status option \<Rightarrow> Status option \<Rightarrow> string list Framework" where
  "example_bind_framework a b =
     \<lparr>preFilterPlugins = [], filterPlugins = [], scorePlugins = [], reservePlugins = [],
      bindPlugins = [example_bind_plugin ''A'' a, example_bind_plugin ''B'' b]\<rparr>"

text \<open>
  A store with one cycle state, which holds the number 5 under the key k; the \<open>Clone\<close> of a
  number adds 10 to it, so that a clone is told apart from its original.
\<close>

definition example_clone :: "nat \<Rightarrow> nat option" where
  "example_clone d = Some (d + 10)"

definition example_store :: "nat store" where
  "example_store = [\<lparr>storage = DAList.update ''k'' (Some 5) DAList.empty\<rparr>]"

section \<open>Properties\<close>

subsection \<open>Status\<close>

text \<open>
  C7. A nil status has the code Success, \<open>IsSuccess\<close> holds of it and its \<open>AsError\<close> is nil.
  For every status, nil or not, \<open>AsError\<close> is nil exactly when the code is Success; for a
  status that is not a Success it is the wrapped cause \<open>err\<close> when there is one, and
  otherwise a new error whose text is the status's message, the reasons joined by a comma
  and a space.
\<close>

theorem Status_nil_is_success_and_AsError:
  "Code None = Success \<and> IsSuccess None \<and> AsError None = None \<and>
   ((AsError s = None) = (Code s = Success)) \<and>
   AsError (Some st) =
     (if code st = Success then None
      else Some (case err st of Some e \<Rightarrow> e | None \<Rightarrow> errors_New (Message (Some st)))) \<and>
   error_Error (errors_New (Message (Some st))) = strings_Join (reasons st) '', ''"
  by (cases s) (auto simp: Code_def IsSuccess_def AsError_def Message_def split: option.splits)

subsection \<open>Merge\<close>

text \<open>
  C10. \<open>Merge\<close> of the empty map returns nil, no status being built; by the reading of nil
  as Success the result has the code Success, \<open>IsSuccess\<close> holds of it and its \<open>AsError\<close>
  is nil.
\<close>

theorem Merge_empty_is_success:
  "Merge [] = Inr None \<and>
   (\<exists>r. Merge [] = Inr r \<and> Code r = Success \<and> IsSuccess r \<and> AsError r = None)"
  by (simp add: Merge_def Code_def IsSuccess_def AsError_def)

lemma fold_AppendReason: "fold (\<lambda>r f. AppendReason f r) rs f = f\<lparr>reasons := reasons f @ rs\<rparr>"
  by (induction rs arbitrary: f) (simp_all add: AppendReason_def)

lemma Merge_loop_Some:
  "Merge_loop ((n, Some st) # p) f = Merge_loop p (merge_step f st)"
  by (simp add: merge_step_def fold_AppendReason Code_def PluginName_def Let_def)

lemma Merge_loop_total:
  "\<exists>r. Merge_loop (map (\<lambda>(n, s). (n, Some s)) ss) f = Inr r"
proof (induction ss arbitrary: f)
  case Nil
  show ?case by simp
next
  case (Cons a ss)
  obtain n st where a: "a = (n, st)" by (cases a)
  show ?case using Cons.IH [of "merge_step f st"] by (simp add: a Merge_loop_Some del: Merge_loop.simps)
qed

lemma Merge_loop_reasons:
  "Merge_loop (map (\<lambda>(n, s). (n, Some s)) ss) f = Inr r \<Longrightarrow>
   reasons r = reasons f @ concat (map (\<lambda>(n, s). reasons s) ss)"
proof (induction ss arbitrary: f)
  case Nil
  then show ?case by simp
next
  case (Cons a ss)
  obtain n st where a: "a = (n, st)" by (cases a)
  from Cons.prems have "Merge_loop (map (\<lambda>(n, s). (n, Some s)) ss) (merge_step f st) = Inr r"
    by (simp add: a Merge_loop_Some del: Merge_loop.simps)
  from Cons.IH [OF this] show ?case
    by (simp add: a merge_step_def Let_def)
qed

lemma find_snoc:
  "find P (xs @ [x]) = (case find P xs of None \<Rightarrow> (if P x then Some x else None) | Some y \<Rightarrow> Some y)"
  by (induction xs) simp_all

lemma Merge_loop_err:
  "Merge_loop (map (\<lambda>(n, s). (n, Some s)) ss) f = Inr r \<Longrightarrow>
   err r = (case find (\<lambda>(n, s). code s = Error) (rev ss) of
              None \<Rightarrow> err f
            | Some (n, s) \<Rightarrow> AsError (Some s))"
proof (induction ss arbitrary: f)
  case Nil
  then show ?case by simp
next
  case (Cons a ss)
  obtain n st where a: "a = (n, st)" by (cases a)
  from Cons.prems have "Merge_loop (map (\<lambda>(n, s). (n, Some s)) ss) (merge_step f st) = Inr r"
    by (simp add: a Merge_loop_Some del: Merge_loop.simps)
  from Cons.IH [OF this] show ?case
    by (auto simp add: a merge_step_def Let_def find_snoc split: option.splits)
qed

lemma statusPrecedence_ge: "- 1 \<le> statusPrecedence c"
  by (simp add: statusPrecedence_def)

lemma statusPrecedence_Success_iff: "statusPrecedence c = - 1 \<longleftrightarrow> c = Success"
  by (simp add: statusPrecedence_def)

lemma Max_insert2: "finite S \<Longrightarrow> Max (insert a (insert b S)) = Max (insert (max a b) S)"
  by (cases "S = {}") (simp_all add: max.assoc)

lemma Merge_loop_code:
  "Merge_loop (map (\<lambda>(n, s). (n, Some s)) ss) f = Inr r \<Longrightarrow>
   (case find (\<lambda>(n, s). statusPrecedence (code f) < statusPrecedence (code s) \<and>
                 statusPrecedence (code s) = Max (insert (statusPrecedence (code f)) (set (map (\<lambda>(n, s). statusPrecedence (code s)) ss)))) ss of
      None \<Rightarrow> code r = code f \<and> pluginName r = pluginName f
    | Some (n, s) \<Rightarrow> code r = code s \<and> pluginName r = pluginName s)"
proof (induction ss arbitrary: f)
  case Nil
  then show ?case by simp
next
  case (Cons a ss)
  obtain n st where a: "a = (n, st)" by (cases a)
  let ?P = "\<lambda>s. statusPrecedence (code s)"
  let ?S = "set (map (\<lambda>(n, s). statusPrecedence (code s)) ss)"
  let ?f' = "merge_step f st"
  from Cons.prems have run: "Merge_loop (map (\<lambda>(n, s). (n, Some s)) ss) ?f' = Inr r"
    by (simp add: a Merge_loop_Some del: Merge_loop.simps)
  note IH = Cons.IH [OF run]
  have M0: "Max (insert (?P f) (set (map (\<lambda>(n, s). statusPrecedence (code s)) (a # ss))))
          = Max (insert (max (?P f) (?P st)) ?S)"
    using Max_insert2 [of ?S "?P f" "?P st"] by (simp add: a)
  show ?case
  proof (cases "?P f < ?P st")
    case True
    then have f': "code ?f' = code st" "pluginName ?f' = pluginName st"
      by (auto simp add: merge_step_def Let_def)
    from True have mx: "max (?P f) (?P st) = ?P st" by simp
    define M where "M = Max (insert (?P st) ?S)"
    have M: "Max (insert (?P f) (set (map (\<lambda>(n, s). statusPrecedence (code s)) (a # ss)))) = M"
      unfolding M_def M0 mx ..
    have ge: "?P st \<le> M" unfolding M_def by simp
    have IH': "case find (\<lambda>(n, s). ?P st < ?P s \<and> ?P s = M) ss of
        None \<Rightarrow> code r = code st \<and> pluginName r = pluginName st
      | Some (n, s) \<Rightarrow> code r = code s \<and> pluginName r = pluginName s"
      using IH unfolding f' M_def .
    show ?thesis
    proof (cases "M = ?P st")
      case eq: True
      have "find (\<lambda>(n, s). ?P st < ?P s \<and> ?P s = M) ss = None"
        unfolding find_None_iff using eq by auto
      with IH' have "code r = code st \<and> pluginName r = pluginName st" by simp
      then show ?thesis unfolding M using True eq by (simp add: a)
    next
      case neq: False
      with ge have lt: "?P st < M" by simp
      have same: "find (\<lambda>(n, s). ?P f < ?P s \<and> ?P s = M) ss
                = find (\<lambda>(n, s). ?P st < ?P s \<and> ?P s = M) ss"
        using lt True by (intro find_cong) auto
      have "M \<in> insert (?P st) ?S" unfolding M_def by (rule Max_in) simp_all
      with neq have "M \<in> ?S" by simp
      then obtain n' s' where x: "(n', s') \<in> set ss" "?P s' = M"
        by auto
      have "find (\<lambda>(n, s). ?P st < ?P s \<and> ?P s = M) ss \<noteq> None"
        unfolding find_None_iff using x lt by auto
      then obtain y where y: "find (\<lambda>(n, s). ?P st < ?P s \<and> ?P s = M) ss = Some y" by auto
      show ?thesis unfolding M using IH' neq same y True by (simp add: a)
    qed
  next
    case False
    then have f': "code ?f' = code f" "pluginName ?f' = pluginName f"
      by (auto simp add: merge_step_def Let_def)
    from False have mx: "max (?P f) (?P st) = ?P f" by simp
    define M where "M = Max (insert (?P f) ?S)"
    have M: "Max (insert (?P f) (set (map (\<lambda>(n, s). statusPrecedence (code s)) (a # ss)))) = M"
      unfolding M_def M0 mx ..
    have IH': "case find (\<lambda>(n, s). ?P f < ?P s \<and> ?P s = M) ss of
        None \<Rightarrow> code r = code f \<and> pluginName r = pluginName f
      | Some (n, s) \<Rightarrow> code r = code s \<and> pluginName r = pluginName s"
      using IH unfolding f' M_def .
    show ?thesis unfolding M using IH' False by (simp add: a)
  qed
qed

text \<open>
  C2, as the code has it. For a map that is not empty and has no nil entry, met in the
  order \<open>ss\<close>, \<open>Merge\<close> returns a status \<open>r\<close> such that: the precedence of its code is the
  greatest precedence among the entries' codes; its reasons are the reasons of all the
  entries, in the order in which the entries are met; its code and plugin name are those
  of the first entry met whose code is not Success and has the greatest precedence, and
  are Success and the empty name when every entry is a Success; its error is \<open>AsError\<close> of
  the last entry met whose code is Error, and nil when there is none.
\<close>

theorem Merge_nonempty:
  assumes "ss \<noteq> []"
  shows "\<exists>r. Merge (map (\<lambda>(n, s). (n, Some s)) ss) = Inr (Some r) \<and>
     statusPrecedence (code r) = Max (set (map (\<lambda>(n, s). statusPrecedence (code s)) ss)) \<and>
     reasons r = concat (map (\<lambda>(n, s). reasons s) ss) \<and>
     (case find (\<lambda>(n, s). code s \<noteq> Success \<and>
                   statusPrecedence (code s) = Max (set (map (\<lambda>(n, s). statusPrecedence (code s)) ss))) ss of
        None \<Rightarrow> code r = Success \<and> pluginName r = []
      | Some (n, s) \<Rightarrow> code r = code s \<and> pluginName r = pluginName s) \<and>
     err r = (case find (\<lambda>(n, s). code s = Error) (rev ss) of
               None \<Rightarrow> None
             | Some (n, s) \<Rightarrow> AsError (Some s))"
proof -
  let ?f = "NewStatus Success []"
  let ?S = "set (map (\<lambda>(n, s). statusPrecedence (code s)) ss)"
  define M where "M = Max ?S"
  obtain r where r: "Merge_loop (map (\<lambda>(n, s). (n, Some s)) ss) ?f = Inr r"
    using Merge_loop_total by blast
  have f: "code ?f = Success" "reasons ?f = []" "err ?f = None" "pluginName ?f = []"
    by (simp_all add: NewStatus_def)
  have ne: "?S \<noteq> {}" using assms by simp
  have lb: "\<forall>x\<in>?S. - 1 \<le> x" by (auto simp: statusPrecedence_ge)
  have Min: "M \<in> ?S" unfolding M_def using ne by (intro Max_in) simp_all
  have Mge: "- 1 \<le> M" using lb Min by blast
  have M': "Max (insert (statusPrecedence (code ?f)) ?S) = M"
    unfolding M_def using ne Mge [unfolded M_def] by (simp add: f statusPrecedence_def)
  have preds: "(\<lambda>(n, s). statusPrecedence (code ?f) < statusPrecedence (code s) \<and> statusPrecedence (code s) = M)
             = (\<lambda>(n, s). code s \<noteq> Success \<and> statusPrecedence (code s) = M)"
    using statusPrecedence_ge statusPrecedence_Success_iff
    by (auto simp add: f fun_eq_iff statusPrecedence_def)
  have merge: "Merge (map (\<lambda>(n, s). (n, Some s)) ss) = Inr (Some r)"
    using assms r by (simp add: Merge_def)
  have reasons: "reasons r = concat (map (\<lambda>(n, s). reasons s) ss)"
    using Merge_loop_reasons [OF r] by (simp add: f)
  have err: "err r = (case find (\<lambda>(n, s). code s = Error) (rev ss) of
               None \<Rightarrow> None | Some (n, s) \<Rightarrow> AsError (Some s))"
    using Merge_loop_err [OF r] unfolding f .
  have cn: "case find (\<lambda>(n, s). code s \<noteq> Success \<and> statusPrecedence (code s) = M) ss of
        None \<Rightarrow> code r = Success \<and> pluginName r = []
      | Some (n, s) \<Rightarrow> code r = code s \<and> pluginName r = pluginName s"
    using Merge_loop_code [OF r] unfolding M' preds unfolding f .
  have prec: "statusPrecedence (code r) = M"
  proof (cases "find (\<lambda>(n, s). code s \<noteq> Success \<and> statusPrecedence (code s) = M) ss")
    case None
    with cn have c: "code r = Success" by simp
    from Min obtain n s where "(n, s) \<in> set ss" "statusPrecedence (code s) = M" by auto
    with None have "code s = Success" unfolding find_None_iff by auto
    with \<open>statusPrecedence (code s) = M\<close> c show ?thesis by simp
  next
    case (Some y)
    obtain n s where y: "y = (n, s)" by (cases y)
    from Some have "statusPrecedence (code s) = M" unfolding find_Some_iff y by auto
    with cn Some y show ?thesis by simp
  qed
  show ?thesis
    using merge reasons err cn prec unfolding M_def by blast
qed

theorem Merge_nonempty_witness:
  "[(''A'', merge_example_A), (''E'', merge_example_E), (''B'', merge_example_B)] \<noteq> [] \<and>
   Merge [(''A'', Some merge_example_A), (''E'', Some merge_example_E), (''B'', Some merge_example_B)] =
     Inr (Some \<lparr>code = Error, reasons = [''pool is full'', ''boom'', ''zone mismatch''],
                err = Some (errors_New ''boom''), pluginName = ''E''\<rparr>)"
  using Merge_nonempty [of "[(''A'', merge_example_A), (''E'', merge_example_E), (''B'', merge_example_B)]"]
  by (auto simp add: merge_example_A_def merge_example_B_def merge_example_E_def NewStatus_def
      SetPluginName_def Message_def AsError_def IsSuccess_def Code_def statusPrecedence_def)

text \<open>
  C2, as it is stated, fails twice. Two Unschedulable statuses of the plugins A and B, met
  in this order, merge into a status named after A, the first of them, while the last
  entry met with the greatest precedence is that of B. And a map with a nil entry makes
  \<open>Merge\<close> panic instead of returning a status.
\<close>

theorem Merge_first_seen_counterexample:
  "Merge [(''A'', Some merge_example_A), (''B'', Some merge_example_B)] =
     Inr (Some \<lparr>code = Unschedulable, reasons = [''pool is full'', ''zone mismatch''],
                err = None, pluginName = ''A''\<rparr>) \<and>
   code merge_example_B = Unschedulable \<and> pluginName merge_example_B = ''B'' \<and>
   Merge [(''A'', Some merge_example_A), (''B'', None)] = Inl NilPointerDereference"
  by (simp add: Merge_def merge_example_A_def merge_example_B_def NewStatus_def
      SetPluginName_def Code_def statusPrecedence_def PluginName_def AppendReason_def)

lemma merge_step_invariant:
  "status_invariant f \<Longrightarrow> status_invariant st \<Longrightarrow> status_invariant (merge_step f st)"
  by (auto simp add: status_invariant_def merge_step_def Let_def statusPrecedence_def AsError_def
      IsSuccess_def Code_def split: if_splits)

lemma Merge_loop_invariant:
  "Merge_loop (map (\<lambda>(n, s). (n, Some s)) ss) f = Inr r \<Longrightarrow> status_invariant f \<Longrightarrow>
   (\<forall>(n, s) \<in> set ss. status_invariant s) \<Longrightarrow> status_invariant r"
proof (induction ss arbitrary: f)
  case Nil
  then show ?case by simp
next
  case (Cons a ss)
  obtain n st where a: "a = (n, st)" by (cases a)
  from Cons.prems(1) have run: "Merge_loop (map (\<lambda>(n, s). (n, Some s)) ss) (merge_step f st) = Inr r"
    by (simp add: a Merge_loop_Some del: Merge_loop.simps)
  have "status_invariant (merge_step f st)"
    using Cons.prems(2,3) by (simp add: a merge_step_invariant)
  with Cons.IH [OF run] Cons.prems(3) show ?case by simp
qed

text \<open>
  C9, as the code has it. \<open>NewStatus\<close> keeps the code and the reasons it is given, so its
  result satisfies the invariant of \<open>Status\<close> exactly when it is called with no reason for
  Success and with at least one reason for any other code. \<open>Merge\<close> of a map that is not
  empty and whose statuses are not nil and satisfy the invariant returns a status that
  satisfies it.
\<close>

theorem NewStatus_Merge_invariant:
  "(status_invariant (NewStatus c rs) = ((c = Success) = (rs = []))) \<and>
   (ss \<noteq> [] \<and> (\<forall>(n, s) \<in> set ss. status_invariant s) \<longrightarrow>
      (\<exists>r. Merge (map (\<lambda>(n, s). (n, Some s)) ss) = Inr (Some r) \<and> status_invariant r))"
proof -
  have new: "status_invariant (NewStatus c rs) = ((c = Success) = (rs = []))"
    by (auto simp add: status_invariant_def NewStatus_def Let_def)
  have merge: "\<exists>r. Merge (map (\<lambda>(n, s). (n, Some s)) ss) = Inr (Some r) \<and> status_invariant r"
    if ne: "ss \<noteq> []" and inv: "\<forall>(n, s) \<in> set ss. status_invariant s"
  proof -
    obtain r where r: "Merge_loop (map (\<lambda>(n, s). (n, Some s)) ss) (NewStatus Success []) = Inr r"
      using Merge_loop_total by blast
    have "status_invariant (NewStatus Success [])"
      by (simp add: status_invariant_def NewStatus_def)
    from Merge_loop_invariant [OF r this inv] have "status_invariant r" .
    moreover have "Merge (map (\<lambda>(n, s). (n, Some s)) ss) = Inr (Some r)"
      using ne r by (simp add: Merge_def)
    ultimately show ?thesis by blast
  qed
  from new merge show ?thesis by blast
qed

theorem NewStatus_Merge_invariant_witness:
  "status_invariant (NewStatus Unschedulable [''pool is full'']) \<and>
   status_invariant merge_example_A \<and> status_invariant merge_example_E \<and>
   (\<exists>r. Merge [(''A'', Some merge_example_A), (''E'', Some merge_example_E)] = Inr (Some r) \<and>
        status_invariant r)"
  using NewStatus_Merge_invariant [of Unschedulable "[''pool is full'']"
      "[(''A'', merge_example_A), (''E'', merge_example_E)]"]
  by (simp add: status_invariant_def merge_example_A_def merge_example_E_def NewStatus_def
      SetPluginName_def)

text \<open>
  C9, as it is stated, fails: \<open>NewStatus\<close> builds a Success that carries a reason, and an
  Unschedulable status without any reason, which \<open>Merge\<close> hands on as it is.
\<close>

theorem NewStatus_invariant_counterexample:
  "\<not> status_invariant (NewStatus Success [''ok'']) \<and>
   \<not> status_invariant (NewStatus Unschedulable []) \<and>
   Merge [(''A'', Some (NewStatus Unschedulable []))] =
     Inr (Some \<lparr>code = Unschedulable, reasons = [], err = None, pluginName = []\<rparr>) \<and>
   \<not> status_invariant \<lparr>code = Unschedulable, reasons = [], err = None, pluginName = []\<rparr>"
  by (simp add: status_invariant_def NewStatus_def Merge_def Code_def statusPrecedence_def
      PluginName_def)

subsection \<open>Reserve and Unreserve\<close>

lemma RunReservePluginsUnreserve_loop_fold:
  "n \<le> length pls \<Longrightarrow>
   RunReservePluginsUnreserve_loop pls n ctx state volume pool cohort w =
     fold (\<lambda>pl. Unreserve pl ctx state volume pool cohort) (rev (take n pls)) w"
proof (induction n arbitrary: w)
  case 0
  show ?case by simp
next
  case (Suc i)
  then have i: "i < length pls" by simp
  show ?case
    using Suc.IH [of "Unreserve (pls ! i) ctx state volume pool cohort w"] i
    by (simp add: take_Suc_conv_app_nth runReservePluginUnreserve_def)
qed

text \<open>
  C3. \<open>RunReservePluginsUnreserve\<close> calls \<open>Unreserve\<close> of every plugin of the registered
  list, the last plugin first and the first plugin last: the world it leaves is the one
  that these calls, made in the reverse of the registration order, leave one after the
  other. This holds from every world, so also from the one that
  \<open>RunReservePluginsReserve\<close> leaves, whether it called \<open>Reserve\<close> of all the plugins or
  stopped at a failure after a prefix of them.
\<close>

theorem RunReservePluginsUnreserve_reverse_order:
  "RunReservePluginsUnreserve f ctx state volume pool cohort w =
     fold (\<lambda>pl. Unreserve pl ctx state volume pool cohort) (rev (reservePlugins f)) w \<and>
   RunReservePluginsUnreserve f ctx state volume pool cohort
       (snd (RunReservePluginsReserve q f ctx state volume pool cohort w)) =
     fold (\<lambda>pl. Unreserve pl ctx state volume pool cohort) (rev (reservePlugins f))
       (snd (RunReservePluginsReserve q f ctx state volume pool cohort w))"
  by (simp add: RunReservePluginsUnreserve_def RunReservePluginsUnreserve_loop_fold)

text \<open>
  With the plugins A, B and C, where \<open>Reserve\<close> of B fails: \<open>Reserve\<close> is called on A and B
  only, and \<open>Unreserve\<close> then on C, on B and on A.
\<close>

theorem RunReservePluginsUnreserve_reverse_order_witness:
  "snd (RunReservePluginsReserve example_quote example_reserve_framework (Some (Context 0)) None
          (Some (StorageVolume ''vol'')) (Some (ObjectReference ''pool'')) None []) =
     [''Reserve A'', ''Reserve B''] \<and>
   RunReservePluginsUnreserve example_reserve_framework (Some (Context 0)) None
       (Some (StorageVolume ''vol'')) (Some (ObjectReference ''pool'')) None
       [''Reserve A'', ''Reserve B''] =
     [''Reserve A'', ''Reserve B'', ''Unreserve C'', ''Unreserve B'', ''Unreserve A'']"
  using RunReservePluginsUnreserve_reverse_order [of example_reserve_framework "Some (Context 0)" None
      "Some (StorageVolume ''vol'')" "Some (ObjectReference ''pool'')" None "[''Reserve A'', ''Reserve B'']"
      example_quote]
  by (simp add: example_reserve_framework_def example_reserve_plugin_def
      RunReservePluginsReserve_def runReservePluginReserve_def IsSuccess_def Code_def NewStatus_def)

subsection \<open>Score\<close>

text \<open>
  C1 does not hold of the code. \<open>RunScorePlugins\<close> calls \<open>Score\<close> of no plugin: with one
  plugin P, whose \<open>Score\<close> would return 1000, and one pool it returns the zero-valued score
  for P, a nil status, and the world (here the log of the plugin calls) as it was. For every
  framework and list of pools the status is nil and the world unchanged.
\<close>

theorem RunScorePlugins_calls_no_plugin:
  "RunScorePlugins example_score_framework (Some (Context 0)) None (Some (StorageVolume ''vol''))
       [Some (StoragePool ''pool-1'')] [] =
     ((Map.empty(''P'' \<mapsto> [\<lparr>Name = [], Score = 0\<rparr>]), None), []) \<and>
   snd (fst (RunScorePlugins f ctx state volume pools w)) = None \<and>
   snd (RunScorePlugins f ctx state volume pools w) = w"
  by (simp add: RunScorePlugins_def example_score_framework_def)

subsection \<open>PreFilter\<close>

lemma run_all_Cons_iff:
  "run_all (c # cs) w = (rs, w') \<longleftrightarrow>
     (\<exists>r w1 rs'. c w = (r, w1) \<and> run_all cs w1 = (rs', w') \<and> rs = r # rs')"
  by (auto split: prod.splits)

lemma RunPreFilterPlugins_loop_prefix:
  "run_all (map (\<lambda>pl. PreFilter pl ctx state volume) pre) w = (rs, w1) \<Longrightarrow>
   \<forall>r\<in>set rs. IsSuccess r \<Longrightarrow>
   RunPreFilterPlugins_loop q (pre @ rest) ctx state volume w =
     RunPreFilterPlugins_loop q rest ctx state volume w1"
proof (induction pre arbitrary: w rs)
  case Nil
  then show ?case by simp
next
  case (Cons pl pre)
  from Cons.prems(1) obtain r w0 rs' where
    c: "PreFilter pl ctx state volume w = (r, w0)" and
    rest: "run_all (map (\<lambda>pl. PreFilter pl ctx state volume) pre) w0 = (rs', w1)" and
    rs: "rs = r # rs'"
    by (auto simp add: run_all_Cons_iff simp del: run_all.simps)
  from Cons.prems(2) rs have ok: "IsSuccess r" "\<forall>r\<in>set rs'. IsSuccess r" by simp_all
  from Cons.IH [OF rest ok(2)] c ok(1) show ?case
    by (auto simp add: runPreFilterPlugin_def split: option.splits)
qed

lemma RunPreFilterPlugins_all_succeed:
  assumes "run_all (map (\<lambda>pl. PreFilter pl ctx state volume) (preFilterPlugins f)) w = (rs, w')"
    and "\<forall>r\<in>set rs. IsSuccess r"
  shows "RunPreFilterPlugins q f ctx state volume w = (None, w')"
  using RunPreFilterPlugins_loop_prefix [OF assms, of q "[]"]
  by (simp add: RunPreFilterPlugins_def)

lemma RunPreFilterPlugins_first_failure:
  assumes "preFilterPlugins f = pre @ pl # post"
    and "run_all (map (\<lambda>pl. PreFilter pl ctx state volume) pre) w = (rs, w1)"
    and "\<forall>r\<in>set rs. IsSuccess r"
    and "PreFilter pl ctx state volume w1 = (Some st, w2)"
    and "code st \<noteq> Success"
  shows "RunPreFilterPlugins q f ctx state volume w =
     (let name = PreFilterPlugin_Name pl;
          cause = (case err st of Some e \<Rightarrow> e | None \<Rightarrow> errors_New (Message (Some st)));
          msg = ''running PreFilter plugin '' @ q name @ '': '' @ error_Error cause
      in (Some (if code st = Unschedulable then st\<lparr>pluginName := name\<rparr>
                else \<lparr>code = Error, reasons = [msg], err = Some (wrapError msg cause),
                      pluginName = name\<rparr>), w2))"
  using RunPreFilterPlugins_loop_prefix [OF assms(2,3), of q "pl # post"] assms(1,4,5)
  by (auto simp add: RunPreFilterPlugins_def runPreFilterPlugin_def IsSuccess_def IsUnschedulable_def
      Code_def SetPluginName_def WithPluginName_def AsStatus_def Errorf_qw_def AsError_def
      Message_def Let_def split: option.splits)

text \<open>
  Setting the plugin name leaves the rest of a status as it is: its code, reasons and
  error, and with them its message and what \<open>AsError\<close> returns.
\<close>

lemma SetPluginName_keeps_status:
  "code (SetPluginName st n) = code st \<and> reasons (SetPluginName st n) = reasons st \<and>
   err (SetPluginName st n) = err st \<and>
   Message (Some (SetPluginName st n)) = Message (Some st) \<and>
   AsError (Some (SetPluginName st n)) = AsError (Some st)"
  by (simp add: SetPluginName_def Message_def AsError_def IsSuccess_def Code_def
      split: option.splits)

text \<open>
  C5. \<open>RunPreFilterPlugins\<close> returns nil when no plugin is registered. When every plugin
  of the list, called once in the order of the list, returns a success, it returns nil and
  leaves the world that these calls leave. When the plugins \<open>pre\<close> before a plugin \<open>pl\<close>
  succeed and \<open>pl\<close> returns a status \<open>st\<close> that is not a Success, it returns at once, the
  plugins \<open>post\<close> after \<open>pl\<close> not being called. An Unschedulable \<open>st\<close> is returned as it
  is, not wrapped: it is the plugin's own status, with its code, reasons and error, in
  which the driver has filled in the name of \<open>pl\<close> as the plugin name. Any other \<open>st\<close> is
  wrapped into a status of code Error that carries the name of \<open>pl\<close> as its plugin name and
  in its message, and the error of \<open>st\<close> as its cause.
\<close>

theorem RunPreFilterPlugins_stops_at_first_failure:
  "(preFilterPlugins f = [] \<longrightarrow> RunPreFilterPlugins q f ctx state volume w = (None, w)) \<and>
   (run_all (map (\<lambda>pl. PreFilter pl ctx state volume) (preFilterPlugins f)) w = (rs, w') \<and>
    (\<forall>r\<in>set rs. IsSuccess r) \<longrightarrow>
      RunPreFilterPlugins q f ctx state volume w = (None, w')) \<and>
   (preFilterPlugins f = pre @ pl # post \<and>
    run_all (map (\<lambda>pl. PreFilter pl ctx state volume) pre) w = (rs1, w1) \<and>
    (\<forall>r\<in>set rs1. IsSuccess r) \<and>
    PreFilter pl ctx state volume w1 = (Some st, w2) \<and> code st \<noteq> Success \<longrightarrow>
      RunPreFilterPlugins q f ctx state volume w =
        (let name = PreFilterPlugin_Name pl;
             cause = (case err st of Some e \<Rightarrow> e | None \<Rightarrow> errors_New (Message (Some st)));
             msg = ''running PreFilter plugin '' @ q name @ '': '' @ error_Error cause
         in (Some (if code st = Unschedulable then st\<lparr>pluginName := name\<rparr>
                   else \<lparr>code = Error, reasons = [msg], err = Some (wrapError msg cause),
                         pluginName = name\<rparr>), w2)))"
proof (intro conjI impI)
  assume "preFilterPlugins f = []"
  then show "RunPreFilterPlugins q f ctx state volume w = (None, w)"
    by (simp add: RunPreFilterPlugins_def)
next
  assume "run_all (map (\<lambda>pl. PreFilter pl ctx state volume) (preFilterPlugins f)) w = (rs, w') \<and>
    (\<forall>r\<in>set rs. IsSuccess r)"
  then show "RunPreFilterPlugins q f ctx state volume w = (None, w')"
    by (elim conjE) (rule RunPreFilterPlugins_all_succeed, assumption+)
next
  assume "preFilterPlugins f = pre @ pl # post \<and>
    run_all (map (\<lambda>pl. PreFilter pl ctx state volume) pre) w = (rs1, w1) \<and>
    (\<forall>r\<in>set rs1. IsSuccess r) \<and>
    PreFilter pl ctx state volume w1 = (Some st, w2) \<and> code st \<noteq> Success"
  then show "RunPreFilterPlugins q f ctx state volume w =
        (let name = PreFilterPlugin_Name pl;
             cause = (case err st of Some e \<Rightarrow> e | None \<Rightarrow> errors_New (Message (Some st)));
             msg = ''running PreFilter plugin '' @ q name @ '': '' @ error_Error cause
         in (Some (if code st = Unschedulable then st\<lparr>pluginName := name\<rparr>
                   else \<lparr>code = Error, reasons = [msg], err = Some (wrapError msg cause),
                         pluginName = name\<rparr>), w2))"
    by (elim conjE) (rule RunPreFilterPlugins_first_failure, assumption+)
qed

theorem RunPreFilterPlugins_stops_at_first_failure_witness:
  "RunPreFilterPlugins example_quote (example_prefilter_framework None)
       (Some (Context 0)) None (Some (StorageVolume ''vol'')) [] =
     (None, [''PreFilter A'', ''PreFilter B'', ''PreFilter C'']) \<and>
   RunPreFilterPlugins example_quote
       (example_prefilter_framework (Some (NewStatus Unschedulable [''no pool fits''])))
       (Some (Context 0)) None (Some (StorageVolume ''vol'')) [] =
     (Some \<lparr>code = Unschedulable, reasons = [''no pool fits''], err = None, pluginName = ''B''\<rparr>,
      [''PreFilter A'', ''PreFilter B'']) \<and>
   RunPreFilterPlugins example_quote
       (example_prefilter_framework (Some (NewStatus Wait [''later''])))
       (Some (Context 0)) None (Some (StorageVolume ''vol'')) [] =
     (Some \<lparr>code = Error, reasons = [''running PreFilter plugin '' @ example_quote ''B'' @ '': later''],
             err = Some (wrapError (''running PreFilter plugin '' @ example_quote ''B'' @ '': later'')
                      (errors_New ''later'')),
             pluginName = ''B''\<rparr>,
      [''PreFilter A'', ''PreFilter B''])"
proof -
  note defs = example_prefilter_framework_def example_prefilter_plugin_def IsSuccess_def Code_def
    NewStatus_def Message_def Let_def
  have a: "RunPreFilterPlugins example_quote (example_prefilter_framework None)
       (Some (Context 0)) None (Some (StorageVolume ''vol'')) [] =
     (None, [''PreFilter A'', ''PreFilter B'', ''PreFilter C''])"
    using RunPreFilterPlugins_stops_at_first_failure [where f = "example_prefilter_framework None"
      and q = example_quote and ctx = "Some (Context 0)" and state = None
      and volume = "Some (StorageVolume ''vol'')" and w = "[]" and rs = "[None, None, None]"
      and w' = "[''PreFilter A'', ''PreFilter B'', ''PreFilter C'']", THEN conjunct2, THEN conjunct1]
    by (simp add: defs)
  have b: "RunPreFilterPlugins example_quote
       (example_prefilter_framework (Some (NewStatus Unschedulable [''no pool fits''])))
       (Some (Context 0)) None (Some (StorageVolume ''vol'')) [] =
     (Some \<lparr>code = Unschedulable, reasons = [''no pool fits''], err = None, pluginName = ''B''\<rparr>,
      [''PreFilter A'', ''PreFilter B''])"
    using RunPreFilterPlugins_stops_at_first_failure [where
      f = "example_prefilter_framework (Some (NewStatus Unschedulable [''no pool fits'']))"
      and q = example_quote and ctx = "Some (Context 0)" and state = None
      and volume = "Some (StorageVolume ''vol'')" and w = "[]"
      and pre = "[example_prefilter_plugin ''A'' None]"
      and pl = "example_prefilter_plugin ''B'' (Some (NewStatus Unschedulable [''no pool fits'']))"
      and post = "[example_prefilter_plugin ''C'' None]" and ?rs1.0 = "[None]"
      and ?w1.0 = "[''PreFilter A'']" and st = "NewStatus Unschedulable [''no pool fits'']"
      and ?w2.0 = "[''PreFilter A'', ''PreFilter B'']", THEN conjunct2, THEN conjunct2]
    by (simp add: defs)
  have c: "RunPreFilterPlugins example_quote
       (example_prefilter_framework (Some (NewStatus Wait [''later''])))
       (Some (Context 0)) None (Some (StorageVolume ''vol'')) [] =
     (Some \<lparr>code = Error, reasons = [''running PreFilter plugin '' @ example_quote ''B'' @ '': later''],
             err = Some (wrapError (''running PreFilter plugin '' @ example_quote ''B'' @ '': later'')
                      (errors_New ''later'')),
             pluginName = ''B''\<rparr>,
      [''PreFilter A'', ''PreFilter B''])"
    using RunPreFilterPlugins_stops_at_first_failure [where
      f = "example_prefilter_framework (Some (NewStatus Wait [''later'']))"
      and q = example_quote and ctx = "Some (Context 0)" and state = None
      and volume = "Some (StorageVolume ''vol'')" and w = "[]"
      and pre = "[example_prefilter_plugin ''A'' None]"
      and pl = "example_prefilter_plugin ''B'' (Some (NewStatus Wait [''later'']))"
      and post = "[example_prefilter_plugin ''C'' None]" and ?rs1.0 = "[None]"
      and ?w1.0 = "[''PreFilter A'']" and st = "NewStatus Wait [''later'']"
      and ?w2.0 = "[''PreFilter A'', ''PreFilter B'']", THEN conjunct2, THEN conjunct2]
    by (simp add: defs)
  from a b c show ?thesis by blast
qed

subsection \<open>Filter\<close>

lemma RunFilterPlugins_loop_prefix:
  "run_all (map (\<lambda>pl. Filter pl ctx state volume poolInfo) pre) w = (rs, w1) \<Longrightarrow>
   \<forall>r\<in>set rs. IsSuccess r \<or> IsUnschedulable r \<Longrightarrow>
   RunFilterPlugins_loop q (pre @ rest) ctx state volume poolInfo statuses w =
     RunFilterPlugins_loop q rest ctx state volume poolInfo
       (statuses ++ map_of (rev (map (\<lambda>(pl, r). (FilterPlugin_Name pl,
            map_option (\<lambda>st. st\<lparr>pluginName := FilterPlugin_Name pl\<rparr>) r))
          (filter (\<lambda>(pl, r). IsUnschedulable r) (zip pre rs))))) w1"
proof (induction pre arbitrary: w rs statuses)
  case Nil
  then show ?case by simp
next
  case (Cons pl pre)
  from Cons.prems(1) obtain r w0 rs' where
    c: "Filter pl ctx state volume poolInfo w = (r, w0)" and
    rest: "run_all (map (\<lambda>pl. Filter pl ctx state volume poolInfo) pre) w0 = (rs', w1)" and
    rs: "rs = r # rs'"
    by (auto simp add: run_all_Cons_iff simp del: run_all.simps)
  from Cons.prems(2) rs have ok: "IsSuccess r \<or> IsUnschedulable r"
    "\<forall>r\<in>set rs'. IsSuccess r \<or> IsUnschedulable r" by simp_all
  note IH = Cons.IH [OF rest ok(2)]
  show ?case
  proof (cases "IsUnschedulable r")
    case True
    then obtain st where st: "r = Some st" "code st = Unschedulable"
      by (cases r) (auto simp: IsUnschedulable_def Code_def)
    let ?v = "Some (st\<lparr>pluginName := FilterPlugin_Name pl\<rparr>)"
    let ?F = "\<lambda>(pl, r). (FilterPlugin_Name pl,
            map_option (\<lambda>st. st\<lparr>pluginName := FilterPlugin_Name pl\<rparr>) r)"
    let ?P = "\<lambda>(pl, r). IsUnschedulable r"
    have step: "RunFilterPlugins_loop q ((pl # pre) @ rest) ctx state volume poolInfo statuses w =
        RunFilterPlugins_loop q (pre @ rest) ctx state volume poolInfo
          (statuses(FilterPlugin_Name pl \<mapsto> ?v)) w0"
      using c st by (simp add: runFilterPlugin_def IsSuccess_def IsUnschedulable_def Code_def
          SetPluginName_def)
    have acc: "statuses ++ map_of (rev (map ?F (filter ?P (zip (pl # pre) rs)))) =
        statuses(FilterPlugin_Name pl \<mapsto> ?v) ++ map_of (rev (map ?F (filter ?P (zip pre rs'))))"
      using st True by (simp add: rs map_add_assoc [symmetric])
    show ?thesis unfolding step acc by (rule IH)
  next
    case False
    with ok(1) have "IsSuccess r" by simp
    then show ?thesis
      using c False IH [of statuses]
      by (auto simp add: rs runFilterPlugin_def split: option.splits)
  qed
qed

lemma RunFilterPlugins_loop_empty:
  "RunFilterPlugins_loop q pls ctx state volume poolInfo statuses w = (Map.empty, w') \<Longrightarrow>
   statuses = Map.empty \<and>
   (\<exists>rs. run_all (map (\<lambda>pl. Filter pl ctx state volume poolInfo) pls) w = (rs, w') \<and>
         (\<forall>r\<in>set rs. IsSuccess r))"
proof (induction pls arbitrary: statuses w)
  case Nil
  then show ?case by simp
next
  case (Cons pl pls)
  obtain r w0 where c: "Filter pl ctx state volume poolInfo w = (r, w0)"
    by (cases "Filter pl ctx state volume poolInfo w")
  show ?case
  proof (cases "IsSuccess r")
    case True
    with Cons.prems c have "RunFilterPlugins_loop q pls ctx state volume poolInfo statuses w0 = (Map.empty, w')"
      by (auto simp add: runFilterPlugin_def split: option.splits)
    from Cons.IH [OF this] True c show ?thesis by auto
  next
    case False
    then obtain st where st: "r = Some st" by (cases r) (auto simp: IsSuccess_def Code_def)
    show ?thesis
    proof (cases "IsUnschedulable r")
      case True
      with Cons.prems c st False have
        "RunFilterPlugins_loop q pls ctx state volume poolInfo
           (statuses(FilterPlugin_Name pl \<mapsto> Some (SetPluginName st (FilterPlugin_Name pl)))) w0 = (Map.empty, w')"
        by (simp add: runFilterPlugin_def)
      from Cons.IH [OF this] have
        "statuses(FilterPlugin_Name pl \<mapsto> Some (SetPluginName st (FilterPlugin_Name pl))) = Map.empty"
        by (rule conjunct1)
      then show ?thesis by simp
    next
      case nu: False
      with Cons.prems c st False show ?thesis
        by (simp add: runFilterPlugin_def Let_def)
    qed
  qed
qed

text \<open>
  C4. For one pool, when every filter plugin returns a Success or an Unschedulable status,
  \<open>RunFilterPlugins\<close> calls all the plugins in the order of the list and returns the mapping
  that holds, under the name of each plugin that returned an Unschedulable status, that
  status with the plugin's name set (entered in the order of the calls, so that of two
  plugins of one name the later one's status stays). When the plugins \<open>pre\<close> return Success
  or Unschedulable and the plugin \<open>pl\<close> after them returns a status of any other code, the
  plugins \<open>post\<close> after \<open>pl\<close> are not called and the mapping returned holds one entry only:
  under the name of \<open>pl\<close>, a status of code Error that carries the name of \<open>pl\<close> and wraps
  the error of the plugin's status. The mapping returned is empty exactly when all the
  plugins were called and each returned a success.
\<close>

theorem RunFilterPlugins_collects_or_escalates:
  "(run_all (map (\<lambda>pl. Filter pl ctx state volume poolInfo) (filterPlugins f)) w = (rs, w') \<and>
    (\<forall>r\<in>set rs. IsSuccess r \<or> IsUnschedulable r) \<longrightarrow>
      RunFilterPlugins q f ctx state volume poolInfo w =
        (map_of (rev (map (\<lambda>(pl, r). (FilterPlugin_Name pl,
              map_option (\<lambda>st. st\<lparr>pluginName := FilterPlugin_Name pl\<rparr>) r))
            (filter (\<lambda>(pl, r). IsUnschedulable r) (zip (filterPlugins f) rs)))), w')) \<and>
   (filterPlugins f = pre @ pl # post \<and>
    run_all (map (\<lambda>pl. Filter pl ctx state volume poolInfo) pre) w = (rs1, w1) \<and>
    (\<forall>r\<in>set rs1. IsSuccess r \<or> IsUnschedulable r) \<and>
    Filter pl ctx state volume poolInfo w1 = (Some st, w2) \<and>
    code st \<noteq> Success \<and> code st \<noteq> Unschedulable \<longrightarrow>
      RunFilterPlugins q f ctx state volume poolInfo w =
        (let name = FilterPlugin_Name pl;
             cause = (case err st of Some e \<Rightarrow> e | None \<Rightarrow> errors_New (Message (Some st)));
             msg = ''running '' @ q name @ '' filter plugin: '' @ error_Error cause
         in (Map.empty(name \<mapsto> Some \<lparr>code = Error, reasons = [msg],
                                    err = Some (wrapError msg cause), pluginName = name\<rparr>), w2))) \<and>
   ((fst (RunFilterPlugins q f ctx state volume poolInfo w) = Map.empty) =
    (\<exists>rs. run_all (map (\<lambda>pl. Filter pl ctx state volume poolInfo) (filterPlugins f)) w =
            (rs, snd (RunFilterPlugins q f ctx state volume poolInfo w)) \<and>
          (\<forall>r\<in>set rs. IsSuccess r)))"
proof (intro conjI impI)
  assume h: "run_all (map (\<lambda>pl. Filter pl ctx state volume poolInfo) (filterPlugins f)) w = (rs, w') \<and>
    (\<forall>r\<in>set rs. IsSuccess r \<or> IsUnschedulable r)"
  show "RunFilterPlugins q f ctx state volume poolInfo w =
        (map_of (rev (map (\<lambda>(pl, r). (FilterPlugin_Name pl,
              map_option (\<lambda>st. st\<lparr>pluginName := FilterPlugin_Name pl\<rparr>) r))
            (filter (\<lambda>(pl, r). IsUnschedulable r) (zip (filterPlugins f) rs)))), w')"
    using RunFilterPlugins_loop_prefix [OF conjunct1 [OF h] conjunct2 [OF h], of q "[]" Map.empty]
    by (simp add: RunFilterPlugins_def)
next
  assume h: "filterPlugins f = pre @ pl # post \<and>
    run_all (map (\<lambda>pl. Filter pl ctx state volume poolInfo) pre) w = (rs1, w1) \<and>
    (\<forall>r\<in>set rs1. IsSuccess r \<or> IsUnschedulable r) \<and>
    Filter pl ctx state volume poolInfo w1 = (Some st, w2) \<and>
    code st \<noteq> Success \<and> code st \<noteq> Unschedulable"
  then have run: "run_all (map (\<lambda>pl. Filter pl ctx state volume poolInfo) pre) w = (rs1, w1)"
    and ok: "\<forall>r\<in>set rs1. IsSuccess r \<or> IsUnschedulable r" by simp_all
  show "RunFilterPlugins q f ctx state volume poolInfo w =
        (let name = FilterPlugin_Name pl;
             cause = (case err st of Some e \<Rightarrow> e | None \<Rightarrow> errors_New (Message (Some st)));
             msg = ''running '' @ q name @ '' filter plugin: '' @ error_Error cause
         in (Map.empty(name \<mapsto> Some \<lparr>code = Error, reasons = [msg],
                                    err = Some (wrapError msg cause), pluginName = name\<rparr>), w2))"
    using RunFilterPlugins_loop_prefix [OF run ok, of q "pl # post" Map.empty] h
    by (auto simp add: RunFilterPlugins_def runFilterPlugin_def IsSuccess_def IsUnschedulable_def
        Code_def SetPluginName_def WithPluginName_def AsStatus_def Errorf_qw_def AsError_def
        Message_def Let_def split: option.splits)
next
  show "(fst (RunFilterPlugins q f ctx state volume poolInfo w) = Map.empty) =
    (\<exists>rs. run_all (map (\<lambda>pl. Filter pl ctx state volume poolInfo) (filterPlugins f)) w =
            (rs, snd (RunFilterPlugins q f ctx state volume poolInfo w)) \<and>
          (\<forall>r\<in>set rs. IsSuccess r))"
  proof
    assume e: "fst (RunFilterPlugins q f ctx state volume poolInfo w) = Map.empty"
    obtain m w' where r: "RunFilterPlugins q f ctx state volume poolInfo w = (m, w')"
      by (cases "RunFilterPlugins q f ctx state volume poolInfo w")
    with e have "RunFilterPlugins_loop q (filterPlugins f) ctx state volume poolInfo Map.empty w = (Map.empty, w')"
      by (simp add: RunFilterPlugins_def)
    from RunFilterPlugins_loop_empty [OF this] r
    show "\<exists>rs. run_all (map (\<lambda>pl. Filter pl ctx state volume poolInfo) (filterPlugins f)) w =
            (rs, snd (RunFilterPlugins q f ctx state volume poolInfo w)) \<and>
          (\<forall>r\<in>set rs. IsSuccess r)" by simp
  next
    assume "\<exists>rs. run_all (map (\<lambda>pl. Filter pl ctx state volume poolInfo) (filterPlugins f)) w =
            (rs, snd (RunFilterPlugins q f ctx state volume poolInfo w)) \<and>
          (\<forall>r\<in>set rs. IsSuccess r)"
    then obtain rs where run: "run_all (map (\<lambda>pl. Filter pl ctx state volume poolInfo) (filterPlugins f)) w =
            (rs, snd (RunFilterPlugins q f ctx state volume poolInfo w))"
      and ok: "\<forall>r\<in>set rs. IsSuccess r" by blast
    from ok have ok': "\<forall>r\<in>set rs. IsSuccess r \<or> IsUnschedulable r" by blast
    from ok have none: "filter (\<lambda>(pl, r). IsUnschedulable r) (zip (filterPlugins f) rs) = []"
      by (auto simp add: filter_empty_conv IsSuccess_def IsUnschedulable_def dest: set_zip_rightD)
    have "RunFilterPlugins q f ctx state volume poolInfo w =
        (Map.empty, snd (RunFilterPlugins q f ctx state volume poolInfo w))"
      using RunFilterPlugins_loop_prefix [OF run ok', of q "[]" Map.empty]
      unfolding none by (simp add: RunFilterPlugins_def)
    then show "fst (RunFilterPlugins q f ctx state volume poolInfo w) = Map.empty"
      by (metis fst_conv)
  qed
qed

text \<open>
  With the plugins A, B and C: A Unschedulable and B, C successful give the mapping with
  A's status only, all three plugins being called; A Unschedulable and B with the code Wait
  give the mapping with the Error of B only, C not being called; three successes give the
  empty mapping.
\<close>

theorem RunFilterPlugins_collects_or_escalates_witness:
  "RunFilterPlugins example_quote
       (example_filter_framework (Some (NewStatus Unschedulable [''too small''])) None)
       (Some (Context 0)) None (Some (StorageVolume ''vol''))
       (Some \<lparr>Pool = Some (StoragePool ''pool-1'')\<rparr>) [] =
     (Map.empty(''A'' \<mapsto> Some \<lparr>code = Unschedulable, reasons = [''too small''], err = None,
                              pluginName = ''A''\<rparr>),
      [''Filter A'', ''Filter B'', ''Filter C'']) \<and>
   RunFilterPlugins example_quote
       (example_filter_framework (Some (NewStatus Unschedulable [''too small'']))
          (Some (NewStatus Wait [''later''])))
       (Some (Context 0)) None (Some (StorageVolume ''vol''))
       (Some \<lparr>Pool = Some (StoragePool ''pool-1'')\<rparr>) [] =
     (Map.empty(''B'' \<mapsto> Some \<lparr>code = Error,
          reasons = [''running '' @ example_quote ''B'' @ '' filter plugin: later''],
          err = Some (wrapError (''running '' @ example_quote ''B'' @ '' filter plugin: later'')
                   (errors_New ''later'')),
          pluginName = ''B''\<rparr>),
      [''Filter A'', ''Filter B'']) \<and>
   RunFilterPlugins example_quote (example_filter_framework None None)
       (Some (Context 0)) None (Some (StorageVolume ''vol''))
       (Some \<lparr>Pool = Some (StoragePool ''pool-1'')\<rparr>) [] =
     (Map.empty, [''Filter A'', ''Filter B'', ''Filter C''])"
proof -
  note defs = example_filter_framework_def example_filter_plugin_def IsSuccess_def
    IsUnschedulable_def Code_def NewStatus_def Message_def Let_def
  have a: "RunFilterPlugins example_quote
       (example_filter_framework (Some (NewStatus Unschedulable [''too small''])) None)
       (Some (Context 0)) None (Some (StorageVolume ''vol''))
       (Some \<lparr>Pool = Some (StoragePool ''pool-1'')\<rparr>) [] =
     (Map.empty(''A'' \<mapsto> Some \<lparr>code = Unschedulable, reasons = [''too small''], err = None,
                              pluginName = ''A''\<rparr>),
      [''Filter A'', ''Filter B'', ''Filter C''])"
    using RunFilterPlugins_collects_or_escalates [where
      f = "example_filter_framework (Some (NewStatus Unschedulable [''too small''])) None"
      and q = example_quote and ctx = "Some (Context 0)" and state = None
      and volume = "Some (StorageVolume ''vol'')"
      and poolInfo = "Some \<lparr>Pool = Some (StoragePool ''pool-1'')\<rparr>" and w = "[]"
      and rs = "[Some (NewStatus Unschedulable [''too small'']), None, None]"
      and w' = "[''Filter A'', ''Filter B'', ''Filter C'']", THEN conjunct1]
    by (simp add: defs)
  have b: "RunFilterPlugins example_quote
       (example_filter_framework (Some (NewStatus Unschedulable [''too small'']))
          (Some (NewStatus Wait [''later''])))
       (Some (Context 0)) None (Some (StorageVolume ''vol''))
       (Some \<lparr>Pool = Some (StoragePool ''pool-1'')\<rparr>) [] =
     (Map.empty(''B'' \<mapsto> Some \<lparr>code = Error,
          reasons = [''running '' @ example_quote ''B'' @ '' filter plugin: later''],
          err = Some (wrapError (''running '' @ example_quote ''B'' @ '' filter plugin: later'')
                   (errors_New ''later'')),
          pluginName = ''B''\<rparr>),
      [''Filter A'', ''Filter B''])"
    using RunFilterPlugins_collects_or_escalates [where
      f = "example_filter_framework (Some (NewStatus Unschedulable [''too small'']))
             (Some (NewStatus Wait [''later'']))"
      and q = example_quote and ctx = "Some (Context 0)" and state = None
      and volume = "Some (StorageVolume ''vol'')"
      and poolInfo = "Some \<lparr>Pool = Some (StoragePool ''pool-1'')\<rparr>" and w = "[]"
      and pre = "[example_filter_plugin ''A'' (Some (NewStatus Unschedulable [''too small'']))]"
      and pl = "example_filter_plugin ''B'' (Some (NewStatus Wait [''later'']))"
      and post = "[example_filter_plugin ''C'' None]"
      and ?rs1.0 = "[Some (NewStatus Unschedulable [''too small''])]"
      and ?w1.0 = "[''Filter A'']" and st = "NewStatus Wait [''later'']"
      and ?w2.0 = "[''Filter A'', ''Filter B'']", THEN conjunct2, THEN conjunct1]
    by (simp add: defs)
  have c: "RunFilterPlugins example_quote (example_filter_framework None None)
       (Some (Context 0)) None (Some (StorageVolume ''vol''))
       (Some \<lparr>Pool = Some (StoragePool ''pool-1'')\<rparr>) [] =
     (Map.empty, [''Filter A'', ''Filter B'', ''Filter C''])"
    using RunFilterPlugins_collects_or_escalates [where
      f = "example_filter_framework None None"
      and q = example_quote and ctx = "Some (Context 0)" and state = None
      and volume = "Some (StorageVolume ''vol'')"
      and poolInfo = "Some \<lparr>Pool = Some (StoragePool ''pool-1'')\<rparr>" and w = "[]"
      and rs = "[None, None, None]"
      and w' = "[''Filter A'', ''Filter B'', ''Filter C'']", THEN conjunct1]
    by (simp add: defs)
  from a b c show ?thesis by blast
qed

subsection \<open>Bind\<close>

lemma run_all_length: "run_all cs w = (rs, w') \<Longrightarrow> length rs = length cs"
  by (induction cs arbitrary: w rs) (auto split: prod.splits)

lemma RunBindPlugins_loop_prefix:
  "run_all (map (\<lambda>bp. Bind bp ctx state volume pool cohort) pre) w = (rs, w1) \<Longrightarrow>
   \<forall>r\<in>set rs. r \<noteq> None \<and> Code r = Skip \<Longrightarrow>
   RunBindPlugins_loop q (pre @ rest) ctx state volume pool cohort status w =
     RunBindPlugins_loop q rest ctx state volume pool cohort (if rs = [] then status else last rs) w1"
proof (induction pre arbitrary: w rs status)
  case Nil
  then show ?case by simp
next
  case (Cons bp pre)
  from Cons.prems(1) obtain r w0 rs' where
    c: "Bind bp ctx state volume pool cohort w = (r, w0)" and
    rest: "run_all (map (\<lambda>bp. Bind bp ctx state volume pool cohort) pre) w0 = (rs', w1)" and
    rs: "rs = r # rs'"
    by (auto simp add: run_all_Cons_iff simp del: run_all.simps)
  from Cons.prems(2) rs have ok: "r \<noteq> None \<and> Code r = Skip"
    "\<forall>r\<in>set rs'. r \<noteq> None \<and> Code r = Skip" by simp_all
  from Cons.IH [OF rest ok(2), of r] c ok(1) show ?case
    by (simp add: rs runBindPlugin_def)
qed

text \<open>
  C6. With no bind plugin, \<open>RunBindPlugins\<close> returns a new status of code Skip. When every
  plugin of a list that is not empty returns a status of code Skip, all are called in order
  and the result is the status of the last one, of code Skip. When the plugins \<open>pre\<close> each
  return Skip and the plugin \<open>bp\<close> after them returns a status that is not a Skip, the stage
  ends there, the plugins \<open>post\<close> not being called: a success (nil or of code Success) is
  returned as it is, and a status of any other code is turned into a status of code Error
  whose message names \<open>bp\<close> and whose error wraps the error of the plugin's status.
\<close>

theorem RunBindPlugins_skip_chain:
  "(bindPlugins f = [] \<longrightarrow>
      RunBindPlugins q f ctx state volume pool cohort w = (Some (NewStatus Skip [[]]), w) \<and>
      Code (Some (NewStatus Skip [[]])) = Skip) \<and>
   (bindPlugins f \<noteq> [] \<and>
    run_all (map (\<lambda>bp. Bind bp ctx state volume pool cohort) (bindPlugins f)) w = (rs, w') \<and>
    (\<forall>r\<in>set rs. r \<noteq> None \<and> Code r = Skip) \<longrightarrow>
      RunBindPlugins q f ctx state volume pool cohort w = (last rs, w') \<and> Code (last rs) = Skip) \<and>
   (bindPlugins f = pre @ bp # post \<and>
    run_all (map (\<lambda>bp. Bind bp ctx state volume pool cohort) pre) w = (rs1, w1) \<and>
    (\<forall>r\<in>set rs1. r \<noteq> None \<and> Code r = Skip) \<and>
    Bind bp ctx state volume pool cohort w1 = (r, w2) \<and> IsSuccess r \<longrightarrow>
      RunBindPlugins q f ctx state volume pool cohort w = (r, w2)) \<and>
   (bindPlugins f = pre @ bp # post \<and>
    run_all (map (\<lambda>bp. Bind bp ctx state volume pool cohort) pre) w = (rs1, w1) \<and>
    (\<forall>r\<in>set rs1. r \<noteq> None \<and> Code r = Skip) \<and>
    Bind bp ctx state volume pool cohort w1 = (Some st, w2) \<and>
    code st \<noteq> Skip \<and> code st \<noteq> Success \<longrightarrow>
      RunBindPlugins q f ctx state volume pool cohort w =
        (let cause = (case err st of Some e \<Rightarrow> e | None \<Rightarrow> errors_New (Message (Some st)));
             msg = ''running Bind plugin '' @ q (BindPlugin_Name bp) @ '': '' @ error_Error cause
         in (Some \<lparr>code = Error, reasons = [msg], err = Some (wrapError msg cause),
                   pluginName = []\<rparr>, w2)))"
proof (intro conjI impI)
  assume "bindPlugins f = []"
  then show "RunBindPlugins q f ctx state volume pool cohort w = (Some (NewStatus Skip [[]]), w)"
    by (simp add: RunBindPlugins_def)
next
  show "Code (Some (NewStatus Skip [[]])) = Skip"
    by (simp add: Code_def NewStatus_def)
next
  assume h: "bindPlugins f \<noteq> [] \<and>
    run_all (map (\<lambda>bp. Bind bp ctx state volume pool cohort) (bindPlugins f)) w = (rs, w') \<and>
    (\<forall>r\<in>set rs. r \<noteq> None \<and> Code r = Skip)"
  then have run: "run_all (map (\<lambda>bp. Bind bp ctx state volume pool cohort) (bindPlugins f)) w = (rs, w')"
    and ok: "\<forall>r\<in>set rs. r \<noteq> None \<and> Code r = Skip" and ne: "bindPlugins f \<noteq> []" by simp_all
  from run_all_length [OF run] ne have rs_ne: "rs \<noteq> []" by auto
  show "RunBindPlugins q f ctx state volume pool cohort w = (last rs, w')"
    using RunBindPlugins_loop_prefix [OF run ok, of q "[]" None] ne rs_ne
    by (simp add: RunBindPlugins_def)
  from rs_ne ok show "Code (last rs) = Skip" by simp
next
  assume h: "bindPlugins f = pre @ bp # post \<and>
    run_all (map (\<lambda>bp. Bind bp ctx state volume pool cohort) pre) w = (rs1, w1) \<and>
    (\<forall>r\<in>set rs1. r \<noteq> None \<and> Code r = Skip) \<and>
    Bind bp ctx state volume pool cohort w1 = (r, w2) \<and> IsSuccess r"
  then have run: "run_all (map (\<lambda>bp. Bind bp ctx state volume pool cohort) pre) w = (rs1, w1)"
    and ok: "\<forall>r\<in>set rs1. r \<noteq> None \<and> Code r = Skip" by simp_all
  show "RunBindPlugins q f ctx state volume pool cohort w = (r, w2)"
    using RunBindPlugins_loop_prefix [OF run ok, of q "bp # post" None] h
    by (auto simp add: RunBindPlugins_def runBindPlugin_def IsSuccess_def)
next
  assume h: "bindPlugins f = pre @ bp # post \<and>
    run_all (map (\<lambda>bp. Bind bp ctx state volume pool cohort) pre) w = (rs1, w1) \<and>
    (\<forall>r\<in>set rs1. r \<noteq> None \<and> Code r = Skip) \<and>
    Bind bp ctx state volume pool cohort w1 = (Some st, w2) \<and>
    code st \<noteq> Skip \<and> code st \<noteq> Success"
  then have run: "run_all (map (\<lambda>bp. Bind bp ctx state volume pool cohort) pre) w = (rs1, w1)"
    and ok: "\<forall>r\<in>set rs1. r \<noteq> None \<and> Code r = Skip" by simp_all
  show "RunBindPlugins q f ctx state volume pool cohort w =
        (let cause = (case err st of Some e \<Rightarrow> e | None \<Rightarrow> errors_New (Message (Some st)));
             msg = ''running Bind plugin '' @ q (BindPlugin_Name bp) @ '': '' @ error_Error cause
         in (Some \<lparr>code = Error, reasons = [msg], err = Some (wrapError msg cause),
                   pluginName = []\<rparr>, w2))"
    using RunBindPlugins_loop_prefix [OF run ok, of q "bp # post" None] h
    by (auto simp add: RunBindPlugins_def runBindPlugin_def IsSuccess_def Code_def AsStatus_def
        Errorf_qw_def AsError_def Message_def Let_def split: option.splits)
qed

text \<open>
  With no bind plugin the result is a Skip; with A and B both returning Skip it is B's
  Skip; with A returning Skip and B a Success it is B's Success; with A returning
  Unschedulable it is an Error that names A, and B is not called.
\<close>

theorem RunBindPlugins_skip_chain_witness:
  "RunBindPlugins example_quote example_reserve_framework
       (Some (Context 0)) None (Some (StorageVolume ''vol'')) (Some (ObjectReference ''pool'')) None [] =
     (Some \<lparr>code = Skip, reasons = [[]], err = None, pluginName = []\<rparr>, []) \<and>
   RunBindPlugins example_quote
       (example_bind_framework (Some (NewStatus Skip [''not mine''])) (Some (NewStatus Skip [''nor mine''])))
       (Some (Context 0)) None (Some (StorageVolume ''vol'')) (Some (ObjectReference ''pool'')) None [] =
     (Some \<lparr>code = Skip, reasons = [''nor mine''], err = None, pluginName = []\<rparr>,
      [''Bind A'', ''Bind B'']) \<and>
   RunBindPlugins example_quote
       (example_bind_framework (Some (NewStatus Skip [''not mine''])) (Some (NewStatus Success [])))
       (Some (Context 0)) None (Some (StorageVolume ''vol'')) (Some (ObjectReference ''pool'')) None [] =
     (Some \<lparr>code = Success, reasons = [], err = None, pluginName = []\<rparr>,
      [''Bind A'', ''Bind B'']) \<and>
   RunBindPlugins example_quote
       (example_bind_framework (Some (NewStatus Unschedulable [''full''])) None)
       (Some (Context 0)) None (Some (StorageVolume ''vol'')) (Some (ObjectReference ''pool'')) None [] =
     (Some \<lparr>code = Error, reasons = [''running Bind plugin '' @ example_quote ''A'' @ '': full''],
             err = Some (wrapError (''running Bind plugin '' @ example_quote ''A'' @ '': full'')
                      (errors_New ''full'')),
             pluginName = []\<rparr>,
      [''Bind A''])"
proof -
  note defs = example_bind_framework_def example_bind_plugin_def example_reserve_framework_def
    IsSuccess_def Code_def NewStatus_def Message_def Let_def
  have a: "RunBindPlugins example_quote example_reserve_framework
       (Some (Context 0)) None (Some (StorageVolume ''vol'')) (Some (ObjectReference ''pool'')) None [] =
     (Some \<lparr>code = Skip, reasons = [[]], err = None, pluginName = []\<rparr>, [])"
    using RunBindPlugins_skip_chain [where f = example_reserve_framework and q = example_quote
      and ctx = "Some (Context 0)" and state = None and volume = "Some (StorageVolume ''vol'')"
      and pool = "Some (ObjectReference ''pool'')" and cohort = None and w = "[]", THEN conjunct1]
    by (simp add: defs)
  have b: "RunBindPlugins example_quote
       (example_bind_framework (Some (NewStatus Skip [''not mine''])) (Some (NewStatus Skip [''nor mine''])))
       (Some (Context 0)) None (Some (StorageVolume ''vol'')) (Some (ObjectReference ''pool'')) None [] =
     (Some \<lparr>code = Skip, reasons = [''nor mine''], err = None, pluginName = []\<rparr>,
      [''Bind A'', ''Bind B''])"
    using RunBindPlugins_skip_chain [where
      f = "example_bind_framework (Some (NewStatus Skip [''not mine''])) (Some (NewStatus Skip [''nor mine'']))"
      and q = example_quote
      and ctx = "Some (Context 0)" and state = None and volume = "Some (StorageVolume ''vol'')"
      and pool = "Some (ObjectReference ''pool'')" and cohort = None and w = "[]"
      and rs = "[Some (NewStatus Skip [''not mine'']), Some (NewStatus Skip [''nor mine''])]"
      and w' = "[''Bind A'', ''Bind B'']", THEN conjunct2, THEN conjunct1]
    by (simp add: defs)
  have c: "RunBindPlugins example_quote
       (example_bind_framework (Some (NewStatus Skip [''not mine''])) (Some (NewStatus Success [])))
       (Some (Context 0)) None (Some (StorageVolume ''vol'')) (Some (ObjectReference ''pool'')) None [] =
     (Some \<lparr>code = Success, reasons = [], err = None, pluginName = []\<rparr>,
      [''Bind A'', ''Bind B''])"
    using RunBindPlugins_skip_chain [where
      f = "example_bind_framework (Some (NewStatus Skip [''not mine''])) (Some (NewStatus Success []))"
      and q = example_quote
      and ctx = "Some (Context 0)" and state = None and volume = "Some (StorageVolume ''vol'')"
      and pool = "Some (ObjectReference ''pool'')" and cohort = None and w = "[]"
      and pre = "[example_bind_plugin ''A'' (Some (NewStatus Skip [''not mine'']))]"
      and bp = "example_bind_plugin ''B'' (Some (NewStatus Success []))" and post = "[]"
      and ?rs1.0 = "[Some (NewStatus Skip [''not mine''])]" and ?w1.0 = "[''Bind A'']"
      and r = "Some (NewStatus Success [])" and ?w2.0 = "[''Bind A'', ''Bind B'']",
      THEN conjunct2, THEN conjunct2, THEN conjunct1]
    by (simp add: defs)
  have d: "RunBindPlugins example_quote
       (example_bind_framework (Some (NewStatus Unschedulable [''full''])) None)
       (Some (Context 0)) None (Some (StorageVolume ''vol'')) (Some (ObjectReference ''pool'')) None [] =
     (Some \<lparr>code = Error, reasons = [''running Bind plugin '' @ example_quote ''A'' @ '': full''],
             err = Some (wrapError (''running Bind plugin '' @ example_quote ''A'' @ '': full'')
                      (errors_New ''full'')),
             pluginName = []\<rparr>,
      [''Bind A''])"
    using RunBindPlugins_skip_chain [where
      f = "example_bind_framework (Some (NewStatus Unschedulable [''full''])) None"
      and q = example_quote
      and ctx = "Some (Context 0)" and state = None and volume = "Some (StorageVolume ''vol'')"
      and pool = "Some (ObjectReference ''pool'')" and cohort = None and w = "[]"
      and pre = "[]"
      and bp = "example_bind_plugin ''A'' (Some (NewStatus Unschedulable [''full'']))"
      and post = "[example_bind_plugin ''B'' None]"
      and ?rs1.0 = "[]" and ?w1.0 = "[]"
      and st = "NewStatus Unschedulable [''full'']" and ?w2.0 = "[''Bind A'']",
      THEN conjunct2, THEN conjunct2, THEN conjunct2]
    by (simp add: defs)
  from a b c d show ?thesis by blast
qed

subsection \<open>CycleState\<close>

text \<open>\<open>Clone\<close> of nil is nil.\<close>

lemma Clone_nil: "Clone cl None h = Inr (None, h)"
  by (simp add: Clone_def)

lemma Clone_loop_result:
  "a < length h1 \<Longrightarrow> distinct (map fst l) \<Longrightarrow> \<forall>(k, v) \<in> set l. v \<noteq> None \<Longrightarrow>
   \<exists>h2. Clone_loop cl l (Some a) h1 = Inr h2 \<and> length h2 = length h1 \<and>
        (\<forall>b. b \<noteq> a \<longrightarrow> h2 ! b = h1 ! b) \<and>
        (\<forall>k. DAList.lookup (storage (h2 ! a)) k =
              (case map_of l k of
                 Some v \<Rightarrow> Some (case v of Some d \<Rightarrow> cl d | None \<Rightarrow> None)
               | None \<Rightarrow> DAList.lookup (storage (h1 ! a)) k))"
proof (induction l arbitrary: h1)
  case Nil
  then show ?case by simp
next
  case (Cons kv l)
  obtain k0 v0 where kv: "kv = (k0, v0)" by (cases kv)
  from Cons.prems(3) kv obtain d where v0: "v0 = Some d" by auto
  let ?h = "h1[a := (h1 ! a)\<lparr>storage := DAList.update k0 (cl d) (storage (h1 ! a))\<rparr>]"
  have w: "Write (Some a) k0 (cl d) h1 = Inr ?h"
    using Cons.prems(1) by (simp add: Write_def)
  have len: "a < length ?h" using Cons.prems(1) by simp
  have dist: "distinct (map fst l)" and notin: "k0 \<notin> fst ` set l"
    using Cons.prems(2) kv by auto
  have nonnil: "\<forall>(k, v) \<in> set l. v \<noteq> None" using Cons.prems(3) by simp
  from Cons.IH [OF len dist nonnil] obtain h2 where
    run: "Clone_loop cl l (Some a) ?h = Inr h2" and l2: "length h2 = length ?h" and
    other: "\<forall>b. b \<noteq> a \<longrightarrow> h2 ! b = ?h ! b" and
    look: "\<forall>k. DAList.lookup (storage (h2 ! a)) k =
              (case map_of l k of
                 Some v \<Rightarrow> Some (case v of Some d \<Rightarrow> cl d | None \<Rightarrow> None)
               | None \<Rightarrow> DAList.lookup (storage (?h ! a)) k)"
    by blast
  have none: "map_of l k0 = None" using notin by (simp add: map_of_eq_None_iff)
  have "Clone_loop cl (kv # l) (Some a) h1 = Inr h2"
    using run w by (simp add: kv v0)
  moreover have "length h2 = length h1" using l2 by simp
  moreover have "\<forall>b. b \<noteq> a \<longrightarrow> h2 ! b = h1 ! b" using other by simp
  moreover have "\<forall>k. DAList.lookup (storage (h2 ! a)) k =
              (case map_of (kv # l) k of
                 Some v \<Rightarrow> Some (case v of Some d \<Rightarrow> cl d | None \<Rightarrow> None)
               | None \<Rightarrow> DAList.lookup (storage (h1 ! a)) k)"
    using look none Cons.prems(1)
    by (auto simp add: kv v0 DAList.lookup_update split: option.splits)
  ultimately show ?case by blast
qed

text \<open>
  C8, as the code has it. Let \<open>c\<close> be a cycle state of the store \<open>h\<close>, built by
  \<open>NewCycleState\<close> as every cycle state of the store is, whose stored values are not nil,
  so that each has a \<open>Clone\<close> of its own. Then \<open>Clone\<close> returns a new cycle state \<open>c'\<close>, at
  an address that was not in use, and a store \<open>h'\<close> in which \<open>c\<close> reads as before and \<open>c'\<close>
  holds, under every key of \<open>c\<close>, the result of \<open>Clone\<close> of the value that \<open>c\<close> holds there,
  and nothing under any other key. Writing a value \<open>v\<close> under a key \<open>k'\<close> (the key \<open>k\<close> that
  is read, or any other) in \<open>c\<close> succeeds and does not change what \<open>Read\<close> of \<open>k\<close> returns on
  \<open>c'\<close>, and writing in \<open>c'\<close> does not change what \<open>Read\<close> of \<open>k\<close> returns on \<open>c\<close>.
\<close>

theorem Clone_independent:
  assumes "c < length h"
    and "\<forall>(k, v) \<in> set (DAList.impl_of (storage (h ! c))). v \<noteq> None"
  shows "\<exists>c' h'. Clone cl (Some c) h = Inr (Some c', h') \<and> c' = length h \<and>
     Read (Some c) k h' = Read (Some c) k h \<and>
     Read (Some c') k h' =
       (case DAList.lookup (storage (h ! c)) k of
          Some v \<Rightarrow> Inr (case v of Some d \<Rightarrow> cl d | None \<Rightarrow> None, None)
        | None \<Rightarrow> Inr (None, Some ErrNotFound)) \<and>
     (\<exists>h''. Write (Some c) k' v h' = Inr h'' \<and> Read (Some c') k h'' = Read (Some c') k h') \<and>
     (\<exists>h''. Write (Some c') k' v h' = Inr h'' \<and> Read (Some c) k h'' = Read (Some c) k h')"
proof -
  let ?h1 = "h @ [\<lparr>storage = DAList.empty\<rparr>]"
  let ?c' = "length h"
  let ?l = "DAList.impl_of (storage (h ! c))"
  have a: "?c' < length ?h1" by simp
  have hc: "?h1 ! c = h ! c" using assms(1) by (simp add: nth_append)
  from Clone_loop_result [OF a DAList.impl_of_distinct assms(2), of cl]
  obtain h2 where run: "Clone_loop cl ?l (Some ?c') ?h1 = Inr h2"
    and len: "length h2 = Suc (length h)"
    and other: "\<forall>b. b \<noteq> ?c' \<longrightarrow> h2 ! b = ?h1 ! b"
    and look: "\<forall>k. DAList.lookup (storage (h2 ! ?c')) k =
              (case map_of ?l k of
                 Some v \<Rightarrow> Some (case v of Some d \<Rightarrow> cl d | None \<Rightarrow> None)
               | None \<Rightarrow> DAList.lookup (storage (?h1 ! ?c')) k)"
    by auto
  have ne: "c \<noteq> ?c'" using assms(1) by simp
  have h2c: "h2 ! c = h ! c" using other ne hc by simp
  have look': "DAList.lookup (storage (h2 ! ?c')) k =
      map_option (\<lambda>v. case v of Some d \<Rightarrow> cl d | None \<Rightarrow> None) (DAList.lookup (storage (h ! c)) k)" for k
  proof -
    have m: "map_of ?l k = DAList.lookup (storage (h ! c)) k"
      by (simp add: DAList.lookup.rep_eq)
    have e: "DAList.lookup (storage (?h1 ! ?c')) k = None" by simp
    from look have "DAList.lookup (storage (h2 ! ?c')) k =
              (case map_of ?l k of
                 Some v \<Rightarrow> Some (case v of Some d \<Rightarrow> cl d | None \<Rightarrow> None)
               | None \<Rightarrow> DAList.lookup (storage (?h1 ! ?c')) k)" by blast
    then show ?thesis unfolding m e by (cases "DAList.lookup (storage (h ! c)) k") simp_all
  qed
  have clone: "Clone cl (Some c) h = Inr (Some ?c', h2)"
    using assms(1) run by (simp add: Clone_def NewCycleState_def)
  have r1: "Read (Some c) k h2 = Read (Some c) k h"
    using assms(1) len h2c by (simp add: Read_def)
  have r2: "Read (Some ?c') k h2 =
       (case DAList.lookup (storage (h ! c)) k of
          Some v \<Rightarrow> Inr (case v of Some d \<Rightarrow> cl d | None \<Rightarrow> None, None)
        | None \<Rightarrow> Inr (None, Some ErrNotFound))"
    using len by (simp add: Read_def look' split: option.splits)
  have w1: "\<exists>h''. Write (Some c) k' v h2 = Inr h'' \<and> Read (Some ?c') k h'' = Read (Some ?c') k h2"
    using assms(1) len ne by (simp add: Write_def Read_def)
  have w2: "\<exists>h''. Write (Some ?c') k' v h2 = Inr h'' \<and> Read (Some c) k h'' = Read (Some c) k h2"
    using assms(1) len ne by (simp add: Write_def Read_def)
  from clone r1 r2 w1 w2 show ?thesis by blast
qed

text \<open>
  The cycle state that holds 5 under k is cloned into one that holds 15 under k; after 7
  is written under k in the original, the clone still reads 15.
\<close>

theorem Clone_independent_witness:
  "(0::nat) < length example_store \<and>
   Clone example_clone (Some 0) example_store =
     Inr (Some 1, [\<lparr>storage = DAList.update ''k'' (Some 5) DAList.empty\<rparr>,
                   \<lparr>storage = DAList.update ''k'' (Some 15) DAList.empty\<rparr>]) \<and>
   Read (Some 1) ''k'' [\<lparr>storage = DAList.update ''k'' (Some 5) DAList.empty\<rparr>,
                         \<lparr>storage = DAList.update ''k'' (Some (15::nat)) DAList.empty\<rparr>] =
     Inr (Some 15, None) \<and>
   Write (Some 0) ''k'' (Some 7) [\<lparr>storage = DAList.update ''k'' (Some 5) DAList.empty\<rparr>,
                                  \<lparr>storage = DAList.update ''k'' (Some (15::nat)) DAList.empty\<rparr>] =
     Inr [\<lparr>storage = DAList.update ''k'' (Some 7) DAList.empty\<rparr>,
          \<lparr>storage = DAList.update ''k'' (Some 15) DAList.empty\<rparr>] \<and>
   Read (Some 1) ''k'' [\<lparr>storage = DAList.update ''k'' (Some 7) DAList.empty\<rparr>,
                         \<lparr>storage = DAList.update ''k'' (Some (15::nat)) DAList.empty\<rparr>] =
     Inr (Some 15, None)"
  using Clone_independent [of 0 example_store example_clone "''k''" "''k''" "Some 7"]
  by (simp add: example_store_def example_clone_def Clone_def NewCycleState_def Read_def Write_def
      DAList.update.rep_eq DAList.empty.rep_eq DAList.lookup_update)

text \<open>
  C8, as it is stated for any cycle state, fails: \<open>Write\<close> stores a nil value under the key
  k in a cycle state that \<open>NewCycleState\<close> has just built, and \<open>Clone\<close> of that cycle state
  panics at the call of the value's \<open>Clone\<close>, so that no new cycle state is produced.
\<close>

theorem Clone_nil_value_counterexample:
  "NewCycleState [] = (0, [\<lparr>storage = DAList.empty\<rparr>]) \<and>
   Write (Some 0) ''k'' None [\<lparr>storage = DAList.empty\<rparr>] =
     Inr [\<lparr>storage = DAList.update ''k'' (None :: nat option) DAList.empty\<rparr>] \<and>
   Clone example_clone (Some 0) [\<lparr>storage = DAList.update ''k'' None DAList.empty\<rparr>] =
     Inl NilPointerDereference"
  by (simp add: Clone_def NewCycleState_def Write_def DAList.update.rep_eq DAList.empty.rep_eq)

end
